theory Spec2Isabelle
  imports Complex_Main
begin

section \<open>Exceptions\<close>

text \<open>
  The Python exceptions that the modelled functions raise themselves or that the
  indexing and numpy operations they use raise. A function that can raise returns
  \<open>error + 'a\<close>, with \<open>Inl\<close> for the exception.
\<close>

datatype error =
    IndexError
  | ValueError string
  | TypeError
  | UnboundLocalError
  | OverflowError
  | RuntimeError string

section \<open>cggnn/run.py: the evaluation split\<close>

text \<open>
  \<open>run\<close> sorts the generated graphs into the tuple
  \<open>train_validation_test = (train, validation, test)\<close>, each component a pair of a
  graph list and a label list (lines 38-48), and then looks for the evaluation set with
  a negative index that starts at \<open>-1\<close> (lines 53-58).
\<close>

record 'g graph_datum =
  graph :: 'g
  label :: int
  train_validation_test :: string
  name :: string

type_synonym 'g graph_set = "'g list \<times> int list"

text \<open>Lines 42-46: the index of the set a graph goes to.\<close>

definition i_set :: "'g graph_datum \<Rightarrow> nat" where
  "i_set graph_datum =
     (if train_validation_test graph_datum = ''validation'' then 1
      else if train_validation_test graph_datum = ''test'' then 2
      else 0)"

definition append_datum :: "'g graph_datum \<Rightarrow> 'g graph_set \<Rightarrow> 'g graph_set" where
  "append_datum d s = (fst s @ [graph d], snd s @ [label d])"

text \<open>Lines 41-48: the loop over the graphs, the three sets passed along.\<close>

fun sort_graphs ::
  "'g graph_datum list \<Rightarrow> 'g graph_set \<times> 'g graph_set \<times> 'g graph_set
     \<Rightarrow> 'g graph_set \<times> 'g graph_set \<times> 'g graph_set" where
  "sort_graphs [] tvt = tvt"
| "sort_graphs (d # ds) (tr, va, te) =
     sort_graphs ds
       (if i_set d = 0 then (append_datum d tr, va, te)
        else if i_set d = 1 then (tr, append_datum d va, te)
        else (tr, va, append_datum d te))"

text \<open>
  Python's indexing of a tuple of three: a negative index counts from the end, and an
  index outside \<open>-3 .. 2\<close> raises IndexError.
\<close>

definition tuple3_get :: "'a \<times> 'a \<times> 'a \<Rightarrow> int \<Rightarrow> error + 'a" where
  "tuple3_get t i =
     (let j = (if i < 0 then 3 + i else i)
      in if j = 0 then Inr (fst t)
         else if j = 1 then Inr (fst (snd t))
         else if j = 2 then Inr (snd (snd t))
         else Inl IndexError)"

text \<open>
  Lines 54-57: \<open>while len(train_validation_test[i][0]) == 0: i -= 1; if i < -3: raise\<close>.
  The result is the final value of \<open>i\<close>.
\<close>

function evaluation_index ::
  "'g graph_set \<times> 'g graph_set \<times> 'g graph_set \<Rightarrow> int \<Rightarrow> error + int" where
  "evaluation_index tvt i =
     (case tuple3_get tvt i of
        Inl e \<Rightarrow> Inl e
      | Inr s \<Rightarrow>
          if length (fst s) = 0
          then (if i - 1 < - 3 then Inl (RuntimeError ''all sets created are empty'')
                else evaluation_index tvt (i - 1))
          else Inr i)"
  by pat_completeness auto
termination
  by (relation "measure (\<lambda>(tvt, i). nat (i + 4))") auto

declare evaluation_index.simps [simp del]

text \<open>Lines 53-58: \<open>i = -1\<close>, the loop, and \<open>evaluation_set = train_validation_test[i]\<close>.\<close>

definition evaluation_set ::
  "'g graph_set \<times> 'g graph_set \<times> 'g graph_set \<Rightarrow> error + 'g graph_set" where
  "evaluation_set tvt =
     (case evaluation_index tvt (- 1) of
        Inl e \<Rightarrow> Inl e
      | Inr i \<Rightarrow> tuple3_get tvt i)"

section \<open>hactnet/explain/explain.py: the orchestrator\<close>

text \<open>
  \<open>explain_cell_graphs\<close> calls three functions of the package that are given here as
  parameters: \<open>calculate_importance\<close>, \<open>generate_interactives\<close> and
  \<open>calculate_separability\<close>. Each may raise, so each returns \<open>'x + _\<close> for an
  exception type \<open>'x\<close> of its own. An exception leaving \<open>explain_cell_graphs\<close> is
  either the one it raises itself (line 43) or one that a called function raised.
\<close>

datatype 'x raised = Raised error | Propagated 'x

text \<open>
  The calls made, in order, with the graphs each call is given. The interactive plots
  are files that \<open>generate_interactives\<close> writes: the call with its arguments stands
  for that output.
\<close>

datatype ('g, 'c) event =
    Calculate_importance "'g list"
  | Generate_interactives "'c list" "string list" "string list" string
  | Calculate_separability "'g list \<times> int list" bool "string option"

text \<open>Lines 45-48: \<open>return calculate_separability(...)\<close>.\<close>

definition return_separability ::
  "('g list \<times> int list \<Rightarrow> 'm \<Rightarrow> 'a \<Rightarrow> string list \<Rightarrow> bool \<Rightarrow> 'k option \<Rightarrow> 'w option
      \<Rightarrow> 'w option \<Rightarrow> string option \<Rightarrow> 'x + 'r)
   \<Rightarrow> ('g, 'c) event list \<Rightarrow> 'g list \<times> int list \<Rightarrow> 'm \<Rightarrow> 'a \<Rightarrow> string list \<Rightarrow> bool
   \<Rightarrow> 'k option \<Rightarrow> 'w option \<Rightarrow> 'w option \<Rightarrow> string option
   \<Rightarrow> ('g, 'c) event list \<times> ('x raised + 'r)" where
  "return_separability calculate_separability events cell_graphs_and_labels model attributes
      attribute_names prune_misclassified concept_grouping risk patho_prior out_directory =
     (events @ [Calculate_separability cell_graphs_and_labels prune_misclassified out_directory],
      case calculate_separability cell_graphs_and_labels model attributes attribute_names
             prune_misclassified concept_grouping risk patho_prior out_directory of
        Inl x \<Rightarrow> Inl (Propagated x)
      | Inr tables \<Rightarrow> Inr tables)"

text \<open>Lines 36-48. The result is the list of calls made and what the function returns.\<close>

definition explain_cell_graphs ::
  "('g list \<Rightarrow> 'm \<Rightarrow> string \<Rightarrow> 'x + 'c list)
   \<Rightarrow> ('c list \<Rightarrow> string list \<Rightarrow> string list \<Rightarrow> string \<Rightarrow> 'x + unit)
   \<Rightarrow> ('g list \<times> int list \<Rightarrow> 'm \<Rightarrow> 'a \<Rightarrow> string list \<Rightarrow> bool \<Rightarrow> 'k option \<Rightarrow> 'w option
      \<Rightarrow> 'w option \<Rightarrow> string option \<Rightarrow> 'x + 'r)
   \<Rightarrow> 'g list \<times> int list \<Rightarrow> 'm \<Rightarrow> string \<Rightarrow> 'a \<Rightarrow> string list \<Rightarrow> bool
   \<Rightarrow> 'k option \<Rightarrow> 'w option \<Rightarrow> 'w option
   \<Rightarrow> string list option \<Rightarrow> string list option \<Rightarrow> string option
   \<Rightarrow> ('g, 'c) event list \<times> ('x raised + 'r)" where
  "explain_cell_graphs calculate_importance generate_interactives calculate_separability
      cell_graphs_and_labels model explainer_model attributes attribute_names
      prune_misclassified concept_grouping risk patho_prior
      feature_names cell_graph_names out_directory =
     (let events = [Calculate_importance (fst cell_graphs_and_labels)] in
      case calculate_importance (fst cell_graphs_and_labels) model explainer_model of
        Inl x \<Rightarrow> (events, Inl (Propagated x))
      | Inr cell_graphs \<Rightarrow>
          if out_directory \<noteq> None \<and> feature_names \<noteq> None \<and> cell_graph_names \<noteq> None
          then
            (let events' = events @
                   [Generate_interactives cell_graphs (the feature_names)
                      (the cell_graph_names) (the out_directory)] in
             case generate_interactives cell_graphs (the feature_names)
                    (the cell_graph_names) (the out_directory) of
               Inl x \<Rightarrow> (events', Inl (Propagated x))
             | Inr _ \<Rightarrow>
                 return_separability calculate_separability events' cell_graphs_and_labels
                   model attributes attribute_names prune_misclassified concept_grouping
                   risk patho_prior out_directory)
          else if feature_names \<noteq> None \<or> cell_graph_names \<noteq> None
          then (events,
                Inl (Raised (ValueError
                  ''feature_names, cell_graph_names, and out_directory must all be provided to create interactive plots.'')))
          else
            return_separability calculate_separability events cell_graphs_and_labels
              model attributes attribute_names prune_misclassified concept_grouping
              risk patho_prior out_directory)"

text \<open>
  The spec's words for the configuration error: the visualization parameters are
  partially supplied when some of the three are given and some are not.
\<close>

definition partially_supplied ::
  "string list option \<Rightarrow> string list option \<Rightarrow> string option \<Rightarrow> bool" where
  "partially_supplied feature_names cell_graph_names out_directory =
     (\<not> (feature_names \<noteq> None \<and> cell_graph_names \<noteq> None \<and> out_directory \<noteq> None)
      \<and> \<not> (feature_names = None \<and> cell_graph_names = None \<and> out_directory = None))"

text \<open>
  Simple stand-ins for the three called functions, for evaluating the orchestrator on
  concrete inputs: graphs are named by strings, the importance calculation pairs each
  graph with a score, and the separability calculation drops the graphs whose label
  is not the one a fixed prediction gives when pruning is on.
\<close>

definition importance_const :: "string list \<Rightarrow> unit \<Rightarrow> string \<Rightarrow> string + (string \<times> nat) list" where
  "importance_const graphs model explainer_model =
     (if explainer_model = ''pp'' then Inr (map (\<lambda>g. (g, length g)) graphs)
      else Inl ''unsupported explainer'')"

definition interactives_ok ::
  "(string \<times> nat) list \<Rightarrow> string list \<Rightarrow> string list \<Rightarrow> string \<Rightarrow> string + unit" where
  "interactives_ok cell_graphs feature_names cell_graph_names out_directory = Inr ()"

definition separability_pruned ::
  "string list \<times> int list \<Rightarrow> unit \<Rightarrow> unit \<Rightarrow> string list \<Rightarrow> bool \<Rightarrow> unit option \<Rightarrow> unit option
     \<Rightarrow> unit option \<Rightarrow> string option \<Rightarrow> string + string list" where
  "separability_pruned cell_graphs_and_labels model attributes attribute_names
      prune_misclassified concept_grouping risk patho_prior out_directory =
     Inr (map fst (filter (\<lambda>(g, l). \<not> prune_misclassified \<or> l = 1)
            (zip (fst cell_graphs_and_labels) (snd cell_graphs_and_labels))))"

section \<open>histocartography/interpretability/metric_analysis/metric.py: arrays\<close>

text \<open>
  A numpy array is a vector, a matrix given by its rows, or an array of more dimensions
  given by its shape and its elements in row-major order (the histograms of
  \<open>np.histogramdd\<close> over three attributes or more). The type of its elements is a
  parameter. The matrices of distances and of risks and the score are matrices and
  numbers of their own, with real numbers as entries.
\<close>

datatype 'a ndarray = Vec "'a list" | Mat "'a list list" | Nd "nat list" "'a list"

fun elems :: "'a ndarray \<Rightarrow> 'a list" where
  "elems (Vec v) = v"
| "elems (Mat m) = concat m"
| "elems (Nd s d) = d"

fun map_elems :: "('a \<Rightarrow> 'a) \<Rightarrow> 'a ndarray \<Rightarrow> 'a ndarray" where
  "map_elems f (Vec v) = Vec (map f v)"
| "map_elems f (Mat m) = Mat (map (map f) m)"
| "map_elems f (Nd s d) = Nd s (map f d)"

text \<open>\<open>np.atleast_2d\<close> of a vector or a matrix, as rows.\<close>

fun atleast_2d :: "'a ndarray \<Rightarrow> 'a list list" where
  "atleast_2d (Vec v) = [v]"
| "atleast_2d (Mat m) = m"
| "atleast_2d (Nd s d) = []"

definition width :: "'a list list \<Rightarrow> nat" where
  "width m = (case m of [] \<Rightarrow> 0 | r # _ \<Rightarrow> length r)"

text \<open>
  \<open>np.vstack((a, b))\<close>: the rows of \<open>a\<close> followed by the rows of \<open>b\<close>; numpy raises
  ValueError when the dimensions other than the first differ.
\<close>

fun vstack :: "'a ndarray \<Rightarrow> 'a ndarray \<Rightarrow> error + 'a ndarray" where
  "vstack (Nd s d) (Nd s' d') =
     (if s \<noteq> [] \<and> s' \<noteq> [] \<and> tl s = tl s'
      then Inr (Nd ((hd s + hd s') # tl s) (d @ d'))
      else Inl (ValueError ''all the input array dimensions except for the concatenation axis must match exactly''))"
| "vstack (Nd s d) b =
     Inl (ValueError ''all the input arrays must have same number of dimensions'')"
| "vstack a (Nd s d) =
     Inl (ValueError ''all the input arrays must have same number of dimensions'')"
| "vstack a b =
     (if width (atleast_2d a) = width (atleast_2d b)
      then Inr (Mat (atleast_2d a @ atleast_2d b))
      else Inl (ValueError ''all the input array dimensions except for the concatenation axis must match exactly''))"

text \<open>
  \<open>np.round(x, 4)\<close>, and \<open>round(x, 4)\<close> of a numpy float: the multiple of \<open>1/10000\<close>
  nearest to \<open>x\<close>, the even one of two that are equally near.
\<close>

definition rint :: "real \<Rightarrow> int" where
  "rint x =
     (let f = \<lfloor>x\<rfloor>; d = x - of_int f
      in if d < 1 / 2 then f
         else if 1 / 2 < d then f + 1
         else if even f then f else f + 1)"

definition round4 :: "real \<Rightarrow> real" where
  "round4 x = of_int (rint (x * 10000)) / 10000"

definition np_round4 :: "real list list \<Rightarrow> real list list" where
  "np_round4 M = map (map round4) M"

definition np_multiply :: "real list list \<Rightarrow> real list list \<Rightarrow> real list list" where
  "np_multiply A B = map2 (map2 (*)) A B"

definition np_sum :: "real list list \<Rightarrow> real" where
  "np_sum M = sum_list (map sum_list M)"

definition zeros :: "nat \<Rightarrow> nat \<Rightarrow> real list list" where
  "zeros r c = replicate r (replicate c 0)"

definition ones :: "nat \<Rightarrow> nat \<Rightarrow> real list list" where
  "ones r c = replicate r (replicate c 1)"

text \<open>
  The assignment \<open>M[i, j] = v\<close>; \<open>set_item\<close> is the assignment with numpy's
  IndexError for an index outside the matrix.
\<close>

definition put :: "real list list \<Rightarrow> nat \<Rightarrow> nat \<Rightarrow> real \<Rightarrow> real list list" where
  "put M i j v = M[i := (M ! i)[j := v]]"

definition set_item :: "real list list \<Rightarrow> nat \<Rightarrow> nat \<Rightarrow> real \<Rightarrow> error + real list list" where
  "set_item M i j v =
     (if i < length M \<and> j < length (M ! i) then Inr (put M i j v) else Inl IndexError)"

section \<open>metric.py: pooling per tumor type\<close>

text \<open>Line 21: \<open>n_tumors = len(np.unique(config.tumor_labels))\<close>.\<close>

definition n_tumors :: "int list \<Rightarrow> nat" where
  "n_tumors tumor_labels = length (remdups tumor_labels)"

text \<open>Line 34: \<open>np.where(self.config.tumor_labels == i)[0]\<close>.\<close>

definition where_label :: "int list \<Rightarrow> nat \<Rightarrow> nat list" where
  "where_label tumor_labels i =
     filter (\<lambda>k. tumor_labels ! k = int i) [0..<length tumor_labels]"

text \<open>
  Lines 35-38: \<open>output_ += input[idx[j]]\<close> for every index of \<open>idx\<close>. The input has,
  for every graph, the list of the concept arrays of its nodes.
\<close>

fun gather :: "'a list list \<Rightarrow> nat list \<Rightarrow> 'a list \<Rightarrow> error + 'a list" where
  "gather input [] output_1 = Inr output_1"
| "gather input (k # idx) output_1 =
     (if k < length input then gather input idx (output_1 @ input ! k) else Inl IndexError)"

text \<open>
  Lines 40-44: the loop over \<open>output_\<close> (here \<open>output_1\<close>) that stacks its arrays
  into \<open>output__\<close> (here \<open>output_2\<close>). That variable is a local of the function and
  keeps its value from one tumor type to the next: \<open>None\<close> is the variable before its
  first assignment.
\<close>

fun stack :: "'a ndarray list \<Rightarrow> nat \<Rightarrow> 'a ndarray option \<Rightarrow> error + 'a ndarray option" where
  "stack [] j output_2 = Inr output_2"
| "stack (r # rs) j output_2 =
     (if j = 0 then stack rs (Suc j) (Some r)
      else (case output_2 of
              None \<Rightarrow> Inl UnboundLocalError
            | Some a \<Rightarrow>
                (case vstack a r of
                   Inl e \<Rightarrow> Inl e
                 | Inr a' \<Rightarrow> stack rs (Suc j) (Some a'))))"

text \<open>Lines 33-45: the loop over the tumor types.\<close>

fun merge_loop ::
  "int list \<Rightarrow> 'a ndarray list list \<Rightarrow> nat list \<Rightarrow> 'a ndarray option \<Rightarrow> 'a ndarray list
     \<Rightarrow> error + 'a ndarray list" where
  "merge_loop tumor_labels input [] output_2 output = Inr output"
| "merge_loop tumor_labels input (i # is) output_2 output =
     (case gather input (where_label tumor_labels i) [] of
        Inl e \<Rightarrow> Inl e
      | Inr output_1 \<Rightarrow>
          (case stack output_1 0 output_2 of
             Inl e \<Rightarrow> Inl e
           | Inr None \<Rightarrow> Inl UnboundLocalError
           | Inr (Some a) \<Rightarrow> merge_loop tumor_labels input is (Some a) (output @ [a])))"

definition merge_concepts_per_tumor_type ::
  "int list \<Rightarrow> 'a ndarray list list \<Rightarrow> error + 'a ndarray list" where
  "merge_concepts_per_tumor_type tumor_labels input =
     merge_loop tumor_labels input [0..<n_tumors tumor_labels] None []"

text \<open>
  The spec's words for the pooled output: the classes that have an eligible node, in
  order; a class without one is dropped.
\<close>

definition surviving_classes :: "int list \<Rightarrow> 'a ndarray list list \<Rightarrow> nat list" where
  "surviving_classes tumor_labels input =
     filter (\<lambda>i. concat (map (\<lambda>k. input ! k) (where_label tumor_labels i)) \<noteq> [])
       [0..<n_tumors tumor_labels]"

section \<open>metric.py: distance, risk and score\<close>

text \<open>
  The class \<open>Distance\<close> is imported from a module that is not part of the sources:
  \<open>self.dist.distance\<close> is the parameter \<open>dist_distance\<close>.

  Lines 144-148: the inner loop of \<open>get_distance\<close> over \<open>j\<close>, for one \<open>i\<close>.
\<close>

fun distance_row ::
  "('a ndarray \<Rightarrow> 'a ndarray \<Rightarrow> real) \<Rightarrow> 'a ndarray list \<Rightarrow> nat \<Rightarrow> nat list \<Rightarrow> real list list
     \<Rightarrow> error + real list list" where
  "distance_row dist_distance input i [] M = Inr M"
| "distance_row dist_distance input i (j # js) M =
     (if i \<noteq> j \<and> i < j
      then (let score = dist_distance (input ! i) (input ! j) in
            case set_item M i j score of
              Inl e \<Rightarrow> Inl e
            | Inr M' \<Rightarrow>
                (case set_item M' j i score of
                   Inl e \<Rightarrow> Inl e
                 | Inr M'' \<Rightarrow> distance_row dist_distance input i js M''))
      else distance_row dist_distance input i js M)"

text \<open>Lines 143-148: the outer loop over \<open>i\<close>.\<close>

fun distance_rows ::
  "('a ndarray \<Rightarrow> 'a ndarray \<Rightarrow> real) \<Rightarrow> 'a ndarray list \<Rightarrow> nat list \<Rightarrow> real list list
     \<Rightarrow> error + real list list" where
  "distance_rows dist_distance input [] M = Inr M"
| "distance_rows dist_distance input (i # is) M =
     (case distance_row dist_distance input i [0..<length input] M of
        Inl e \<Rightarrow> Inl e
      | Inr M' \<Rightarrow> distance_rows dist_distance input is M')"

text \<open>Lines 139-149.\<close>

definition get_distance ::
  "('a ndarray \<Rightarrow> 'a ndarray \<Rightarrow> real) \<Rightarrow> nat \<Rightarrow> 'a ndarray list \<Rightarrow> error + real list list" where
  "get_distance dist_distance n input =
     (case distance_rows dist_distance input [0..<length input] (zeros n n) of
        Inl e \<Rightarrow> Inl e
      | Inr M \<Rightarrow> Inr (np_round4 M))"

text \<open>Lines 155-157: the loops of \<open>get_risk\<close>; the indices are those of the matrix.\<close>

fun risk_row :: "nat \<Rightarrow> nat list \<Rightarrow> real list list \<Rightarrow> real list list" where
  "risk_row i [] risk = risk"
| "risk_row i (j # js) risk = risk_row i js (put risk i j (of_int \<bar>int i - int j\<bar>))"

fun risk_rows :: "nat \<Rightarrow> nat list \<Rightarrow> real list list \<Rightarrow> real list list" where
  "risk_rows n [] risk = risk"
| "risk_rows n (i # is) risk = risk_rows n is (risk_row i [0..<n] risk)"

text \<open>
  Lines 152-158. \<open>ordinal\<close> is the truth value of \<open>eval(self.args.risk)\<close>.
\<close>

definition get_risk :: "nat \<Rightarrow> bool \<Rightarrow> real list list" where
  "get_risk n ordinal =
     (let risk = ones n n in if ordinal then risk_rows n [0..<n] risk else risk)"

text \<open>Lines 167 and 172: the score of a distance matrix and a risk matrix.\<close>

definition aggregate_score :: "real list list \<Rightarrow> real list list \<Rightarrow> real" where
  "aggregate_score distance risk = round4 (np_sum (np_multiply distance risk) / 2)"

text \<open>
  The spec's formula for the score: the sum over the class pairs \<open>i < j\<close>.
\<close>

definition upper_triangle_sum :: "nat \<Rightarrow> real list list \<Rightarrow> real list list \<Rightarrow> real" where
  "upper_triangle_sum n distance risk =
     (\<Sum>i = 0..<n. \<Sum>j = Suc i..<n. distance ! i ! j * risk ! i ! j)"

text \<open>The matrices of the data model: square, symmetric, with a zero diagonal.\<close>

definition square :: "nat \<Rightarrow> real list list \<Rightarrow> bool" where
  "square n M = (length M = n \<and> list_all (\<lambda>row. length row = n) M)"

definition symmetric :: "nat \<Rightarrow> real list list \<Rightarrow> bool" where
  "symmetric n M = list_all (\<lambda>i. list_all (\<lambda>j. M ! i ! j = M ! j ! i) [0..<n]) [0..<n]"

definition zero_diagonal :: "nat \<Rightarrow> real list list \<Rightarrow> bool" where
  "zero_diagonal n M = list_all (\<lambda>i. M ! i ! i = 0) [0..<n]"

definition non_negative :: "real list list \<Rightarrow> bool" where
  "non_negative M = list_all (list_all (\<lambda>x. 0 \<le> x)) M"

section \<open>metric.py: floating point numbers\<close>

text \<open>
  The elements of the arrays are the floating point numbers of numpy. Their operations
  round, and they have infinities and NaN, so a result of the code that depends on them
  is computed with the operations of a record: the number nearest to a real number (of
  a literal such as \<open>0.01\<close>, or of a Python integer in \<open>j * step\<close>), \<open>np.inf\<close>, negation,
  the four operations, the comparisons \<open><\<close> and \<open>!=\<close>, \<open>math.ceil\<close>, which raises for
  an infinity and for NaN, and \<open>np.min\<close> and \<open>np.max\<close> of the elements of an array that
  has one.
\<close>

record 'a arith =
  f_float :: "real \<Rightarrow> 'a"
  f_inf :: 'a
  f_neg :: "'a \<Rightarrow> 'a"
  f_add :: "'a \<Rightarrow> 'a \<Rightarrow> 'a"
  f_sub :: "'a \<Rightarrow> 'a \<Rightarrow> 'a"
  f_mul :: "'a \<Rightarrow> 'a \<Rightarrow> 'a"
  f_div :: "'a \<Rightarrow> 'a \<Rightarrow> 'a"
  f_less :: "'a \<Rightarrow> 'a \<Rightarrow> bool"
  f_ne :: "'a \<Rightarrow> 'a \<Rightarrow> bool"
  f_ceil :: "'a \<Rightarrow> error + int"
  f_min :: "'a list \<Rightarrow> 'a"
  f_max :: "'a list \<Rightarrow> 'a"

section \<open>metric.py: histograms\<close>

text \<open>
  Lines 99-104 of \<open>histogram_analysis\<close>: \<open>x\<close> starts as the empty array and becomes the
  first array of the input, then the stack of \<open>x\<close> and the next one.
\<close>

fun vstack_all :: "'a ndarray list \<Rightarrow> nat \<Rightarrow> 'a ndarray \<Rightarrow> error + 'a ndarray" where
  "vstack_all [] i x = Inr x"
| "vstack_all (a # as) i x =
     (if i = 0 then vstack_all as (Suc i) a
      else (case vstack x a of
              Inl e \<Rightarrow> Inl e
            | Inr x' \<Rightarrow> vstack_all as (Suc i) x'))"

text \<open>
  Lines 105-106 and the \<open>len(minm)\<close> of line 109: \<open>np.min(x, axis=0)\<close> and
  \<open>np.max(x, axis=0)\<close> of a matrix are the minima and maxima of its columns; numpy raises
  ValueError for an array without elements. For a vector the result is a number, which
  has no \<open>len\<close>; \<open>math.ceil\<close> then refuses the arrays that an array of more dimensions
  gives.
\<close>

definition column_bounds :: "('a list \<Rightarrow> 'a) \<Rightarrow> 'a ndarray \<Rightarrow> error + 'a list" where
  "column_bounds bound x =
     (case x of
        Mat rows \<Rightarrow>
          if rows = []
          then Inl (ValueError ''zero-size array to reduction operation which has no identity'')
          else Inr (map (\<lambda>d. bound (map (\<lambda>r. r ! d) rows)) [0..<width rows])
      | Vec v \<Rightarrow>
          if v = []
          then Inl (ValueError ''zero-size array to reduction operation which has no identity'')
          else Inl TypeError
      | Nd s d \<Rightarrow> Inl TypeError)"

text \<open>
  Lines 112-115: \<open>while j <= ctr: bins_ = np.append(bins_, minm[i] + j * step); j += 1\<close>.
  The counter is a Python integer; the edge is computed with the floating point
  operations, the product first.
\<close>

function bin_edges :: "'a arith \<Rightarrow> 'a \<Rightarrow> 'a \<Rightarrow> int \<Rightarrow> int \<Rightarrow> 'a list \<Rightarrow> 'a list" where
  "bin_edges ops m step ctr j bins_1 =
     (if j \<le> ctr
      then bin_edges ops m step ctr (j + 1)
             (bins_1 @ [f_add ops m (f_mul ops (f_float ops (of_int j)) step)])
      else bins_1)"
  by pat_completeness auto
termination
  by (relation "measure (\<lambda>(ops, m, step, ctr, j, bins_1). nat (ctr + 1 - j))") auto

declare bin_edges.simps [simp del]

text \<open>
  Lines 108-116: the bin edges of every dimension, with
  \<open>ctr = math.ceil((maxm[i] - minm[i]) / step)\<close> of line 111: the floating point
  difference, its floating point quotient, and the ceiling of that number.
\<close>

fun all_bins ::
  "'a arith \<Rightarrow> 'a list \<Rightarrow> 'a list \<Rightarrow> 'a \<Rightarrow> nat list \<Rightarrow> 'a list list \<Rightarrow> error + 'a list list" where
  "all_bins ops minm maxm step [] bins = Inr bins"
| "all_bins ops minm maxm step (i # is) bins =
     (case f_ceil ops (f_div ops (f_sub ops (maxm ! i) (minm ! i)) step) of
        Inl e \<Rightarrow> Inl e
      | Inr ctr \<Rightarrow>
          all_bins ops minm maxm step is (bins @ [bin_edges ops (minm ! i) step ctr 0 []]))"

text \<open>Lines 99-116: the bin edges that \<open>histogram_analysis\<close> computes from its input.\<close>

definition histogram_bins :: "'a arith \<Rightarrow> 'a ndarray list \<Rightarrow> 'a \<Rightarrow> error + 'a list list" where
  "histogram_bins ops input step =
     (case vstack_all input 0 (Vec []) of
        Inl e \<Rightarrow> Inl e
      | Inr x \<Rightarrow>
          (case column_bounds (f_min ops) x of
             Inl e \<Rightarrow> Inl e
           | Inr minm \<Rightarrow>
               (case column_bounds (f_max ops) x of
                  Inl e \<Rightarrow> Inl e
                | Inr maxm \<Rightarrow> all_bins ops minm maxm step [0..<length minm] [])))"

text \<open>
  Lines 119-122: one histogram per class over the shared bins. \<open>np.histogramdd\<close> with
  \<open>density=True\<close> is the parameter \<open>histogramdd\<close>.
\<close>

fun histograms ::
  "('a ndarray \<Rightarrow> 'a list list \<Rightarrow> error + 'a ndarray) \<Rightarrow> 'a ndarray list \<Rightarrow> 'a list list
     \<Rightarrow> 'a ndarray list \<Rightarrow> error + 'a ndarray list" where
  "histograms histogramdd [] bins count = Inr count"
| "histograms histogramdd (a # as) bins count =
     (case histogramdd a bins of
        Inl e \<Rightarrow> Inl e
      | Inr H \<Rightarrow> histograms histogramdd as bins (count @ [H]))"

text \<open>
  Lines 124-130: the loop for the smallest and the largest value of all histograms, from
  \<open>minm = np.inf\<close> and \<open>maxm = -np.inf\<close>. \<open>np.min\<close> of an array without elements raises
  ValueError. The two tests are the floating point comparisons: both are false for a
  histogram whose minimum and maximum are NaN, which then changes neither bound.
\<close>

fun count_bounds :: "'a arith \<Rightarrow> 'a ndarray list \<Rightarrow> 'a \<Rightarrow> 'a \<Rightarrow> error + 'a \<times> 'a" where
  "count_bounds ops [] minm maxm = Inr (minm, maxm)"
| "count_bounds ops (c # cs) minm maxm =
     (if elems c = []
      then Inl (ValueError ''zero-size array to reduction operation which has no identity'')
      else count_bounds ops cs
             (if f_less ops (f_min ops (elems c)) minm then f_min ops (elems c) else minm)
             (if f_less ops maxm (f_max ops (elems c)) then f_max ops (elems c) else maxm))"

text \<open>
  Lines 124-134: the joint normalization, \<open>(count[i] - minm) / (maxm - minm)\<close> on every
  array when \<open>maxm - minm != 0\<close>.
\<close>

definition normalize_count :: "'a arith \<Rightarrow> 'a ndarray list \<Rightarrow> error + 'a ndarray list" where
  "normalize_count ops count =
     (case count_bounds ops count (f_inf ops) (f_neg ops (f_inf ops)) of
        Inl e \<Rightarrow> Inl e
      | Inr (minm, maxm) \<Rightarrow>
          if f_ne ops (f_sub ops maxm minm) (f_float ops 0)
          then Inr (map (map_elems (\<lambda>v. f_div ops (f_sub ops v minm) (f_sub ops maxm minm)))
                      count)
          else Inr count)"

text \<open>Lines 97-136.\<close>

definition histogram_analysis ::
  "'a arith \<Rightarrow> ('a ndarray \<Rightarrow> 'a list list \<Rightarrow> error + 'a ndarray) \<Rightarrow> 'a ndarray list \<Rightarrow> 'a
     \<Rightarrow> error + 'a ndarray list" where
  "histogram_analysis ops histogramdd input step =
     (case histogram_bins ops input step of
        Inl e \<Rightarrow> Inl e
      | Inr bins \<Rightarrow>
          (case histograms histogramdd input bins [] of
             Inl e \<Rightarrow> Inl e
           | Inr count \<Rightarrow> normalize_count ops count))"

text \<open>
  Lines 161-172: \<open>compute_concept_score\<close>, for the distance name \<open>self.args.distance\<close>,
  the risk mode, the number of tumor types and the pooled concepts \<open>self.concept\<close>. The
  step is the floating point number of the literal \<open>0.01\<close>.
\<close>

definition compute_concept_score ::
  "('a ndarray \<Rightarrow> 'a ndarray \<Rightarrow> real) \<Rightarrow> 'a arith
     \<Rightarrow> ('a ndarray \<Rightarrow> 'a list list \<Rightarrow> error + 'a ndarray)
     \<Rightarrow> string \<Rightarrow> bool \<Rightarrow> nat \<Rightarrow> 'a ndarray list \<Rightarrow> error + real" where
  "compute_concept_score dist_distance ops histogramdd args_distance ordinal n concept =
     (case (if args_distance = ''hist''
            then histogram_analysis ops histogramdd concept (f_float ops (1 / 100))
            else Inr concept) of
        Inl e \<Rightarrow> Inl e
      | Inr concept' \<Rightarrow>
          (case get_distance dist_distance n concept' of
             Inl e \<Rightarrow> Inl e
           | Inr distance \<Rightarrow> Inr (aggregate_score distance (get_risk n ordinal))))"

text \<open>
  The spec's words for the score, with the pairwise distances at full precision: the sum
  over the class pairs \<open>i < j\<close> of the unrounded distance times the risk, rounded once.
\<close>

definition full_precision_score ::
  "('a ndarray \<Rightarrow> 'a ndarray \<Rightarrow> real) \<Rightarrow> nat \<Rightarrow> 'a ndarray list \<Rightarrow> real list list \<Rightarrow> real" where
  "full_precision_score dist_distance n input risk =
     round4 (\<Sum>i = 0..<n. \<Sum>j = Suc i..<n.
               dist_distance (input ! i) (input ! j) * risk ! i ! j)"

text \<open>
  The spec's words for the bin edges: the rows of all the classes together.
\<close>

definition pooled_rows :: "'a ndarray list \<Rightarrow> 'a list list" where
  "pooled_rows input = concat (map atleast_2d input)"

section \<open>The double precision numbers of numpy\<close>

text \<open>
  The default element type of numpy, binary64: a finite number, an infinity or NaN. The
  two zeros of the format are one value here: they compare equal, and the functions
  above divide by no zero that they computed. A literal and the result of an operation
  on finite numbers are rounded to the nearest number of the format, the one with the
  even significand of two that are equally near; the significand has 53 bits, the
  exponent of the smallest normal number is \<open>-1022\<close>, and a result of \<open>2 ^ 1024\<close> or more
  is an infinity.
\<close>

datatype float64 = Finite real | PosInf | NegInf | NaN

text \<open>
  The exponent \<open>e\<close> with \<open>2 ^ e \<le> y < 2 ^ (e + 1)\<close>, looked for from \<open>e\<close> in at most \<open>n\<close>
  steps.
\<close>

fun exponent_from :: "nat \<Rightarrow> int \<Rightarrow> real \<Rightarrow> int" where
  "exponent_from 0 e y = e"
| "exponent_from (Suc n) e y =
     (if y < 2 powi e then exponent_from n (e - 1) y
      else if 2 powi (e + 1) \<le> y then exponent_from n (e + 1) y
      else e)"

definition fl :: "real \<Rightarrow> float64" where
  "fl x =
     (if x = 0 then Finite 0
      else
        (let e = max (exponent_from 1100 0 \<bar>x\<bar>) (- 1022);
             u = 2 powi (e - 52);
             r = of_int (rint (\<bar>x\<bar> / u)) * u
         in if 2 powi 1024 \<le> r then (if 0 < x then PosInf else NegInf)
            else Finite (sgn x * r)))"

fun float_neg :: "float64 \<Rightarrow> float64" where
  "float_neg (Finite a) = Finite (- a)"
| "float_neg PosInf = NegInf"
| "float_neg NegInf = PosInf"
| "float_neg NaN = NaN"

fun float_add :: "float64 \<Rightarrow> float64 \<Rightarrow> float64" where
  "float_add NaN y = NaN"
| "float_add x NaN = NaN"
| "float_add (Finite a) (Finite b) = fl (a + b)"
| "float_add (Finite a) y = y"
| "float_add x (Finite b) = x"
| "float_add x y = (if x = y then x else NaN)"

definition float_sub :: "float64 \<Rightarrow> float64 \<Rightarrow> float64" where
  "float_sub x y = float_add x (float_neg y)"

fun float_mul :: "float64 \<Rightarrow> float64 \<Rightarrow> float64" where
  "float_mul NaN y = NaN"
| "float_mul x NaN = NaN"
| "float_mul (Finite a) (Finite b) = fl (a * b)"
| "float_mul (Finite a) y =
     (if a = 0 then NaN else if (0 < a) = (y = PosInf) then PosInf else NegInf)"
| "float_mul x (Finite b) =
     (if b = 0 then NaN else if (0 < b) = (x = PosInf) then PosInf else NegInf)"
| "float_mul x y = (if x = y then PosInf else NegInf)"

fun float_div :: "float64 \<Rightarrow> float64 \<Rightarrow> float64" where
  "float_div NaN y = NaN"
| "float_div x NaN = NaN"
| "float_div (Finite a) (Finite b) =
     (if b = 0 then (if a = 0 then NaN else if 0 < a then PosInf else NegInf)
      else fl (a / b))"
| "float_div (Finite a) y = Finite 0"
| "float_div x (Finite b) = (if (0 \<le> b) = (x = PosInf) then PosInf else NegInf)"
| "float_div x y = NaN"

fun float_less :: "float64 \<Rightarrow> float64 \<Rightarrow> bool" where
  "float_less NaN y = False"
| "float_less x NaN = False"
| "float_less (Finite a) (Finite b) = (a < b)"
| "float_less x y = (x \<noteq> y \<and> (x = NegInf \<or> y = PosInf))"

definition float_ne :: "float64 \<Rightarrow> float64 \<Rightarrow> bool" where
  "float_ne x y = (x = NaN \<or> y = NaN \<or> x \<noteq> y)"

fun float_ceil :: "float64 \<Rightarrow> error + int" where
  "float_ceil (Finite a) = Inr \<lceil>a\<rceil>"
| "float_ceil NaN = Inl (ValueError ''cannot convert float NaN to integer'')"
| "float_ceil x = Inl OverflowError"

text \<open>
  \<open>np.min\<close> and \<open>np.max\<close> of the elements of an array: NaN when one of them is NaN.
\<close>

definition float_min :: "float64 list \<Rightarrow> float64" where
  "float_min xs =
     (if NaN \<in> set xs then NaN
      else fold (\<lambda>x m. if float_less x m then x else m) (tl xs) (hd xs))"

definition float_max :: "float64 list \<Rightarrow> float64" where
  "float_max xs =
     (if NaN \<in> set xs then NaN
      else fold (\<lambda>x m. if float_less m x then x else m) (tl xs) (hd xs))"

definition binary64 :: "float64 arith" where
  "binary64 =
     \<lparr>f_float = fl, f_inf = PosInf, f_neg = float_neg, f_add = float_add,
      f_sub = float_sub, f_mul = float_mul, f_div = float_div, f_less = float_less,
      f_ne = float_ne, f_ceil = float_ceil, f_min = float_min, f_max = float_max\<rparr>"

section \<open>Stand-ins for the functions that are not in the sources\<close>

text \<open>
  A stand-in for \<open>Distance.distance\<close>, for evaluating the functions on concrete inputs:
  the sum of the absolute differences of the elements, on arrays of real numbers and on
  arrays of finite double precision numbers.
\<close>

definition cityblock :: "real ndarray \<Rightarrow> real ndarray \<Rightarrow> real" where
  "cityblock a b = sum_list (map2 (\<lambda>x y. \<bar>x - y\<bar>) (elems a) (elems b))"

fun finite_value :: "float64 \<Rightarrow> real" where
  "finite_value (Finite a) = a"
| "finite_value x = 0"

definition cityblock64 :: "float64 ndarray \<Rightarrow> float64 ndarray \<Rightarrow> real" where
  "cityblock64 a b =
     sum_list (map2 (\<lambda>x y. \<bar>finite_value x - finite_value y\<bar>) (elems a) (elems b))"

text \<open>
  A stand-in for \<open>np.histogramdd\<close> with \<open>density=True\<close> on one attribute. A row is counted
  in the bin whose left edge is not above it and whose right edge is above it, the last
  bin taking its right edge too; a row outside the edges is counted nowhere. As numpy
  does, the counts are divided by the widths of the bins and then by their sum, with
  the floating point operations: without a row inside the edges that is zero divided
  by zero in every bin.
\<close>

definition in_bin :: "float64 list \<Rightarrow> nat \<Rightarrow> float64 \<Rightarrow> bool" where
  "in_bin edges k x =
     ((float_less (edges ! k) x \<or> x = edges ! k)
      \<and> (float_less x (edges ! Suc k) \<or> (Suc (Suc k) = length edges \<and> x = edges ! Suc k)))"

definition histogram1 :: "float64 ndarray \<Rightarrow> float64 list list \<Rightarrow> error + float64 ndarray" where
  "histogram1 a bins =
     (case bins of
        [edges] \<Rightarrow>
          (let hist = map (\<lambda>k. length (filter (in_bin edges k) (map hd (atleast_2d a))))
                        [0..<length edges - 1]
           in Inr (Vec (map (\<lambda>k. float_div
                                  (float_div (fl (of_nat (hist ! k)))
                                     (float_sub (edges ! Suc k) (edges ! k)))
                                  (fl (of_nat (sum_list hist))))
                          [0..<length edges - 1])))
      | _ \<Rightarrow> Inl (ValueError ''one attribute only''))"

section \<open>The evaluation split: results\<close>

lemma evaluation_index_unfold:
  "evaluation_index (tr, va, te) (- 1) =
     (if fst te \<noteq> [] then Inr (- 1)
      else if fst va \<noteq> [] then Inr (- 2)
      else if fst tr \<noteq> [] then Inr (- 3)
      else Inl (RuntimeError ''all sets created are empty''))"
  by (simp add: tuple3_get_def evaluation_index.simps)

text \<open>
  Claim C10. The evaluation set is the test set when it has a graph, otherwise the
  validation set when it has one, otherwise the training set when it has one, which is
  the last non-empty component of \<open>(train, validation, test)\<close>; when all three are
  empty the RuntimeError is raised.
\<close>

theorem evaluation_set_priority:
  "evaluation_set (tr, va, te) =
     (if fst te \<noteq> [] then Inr te
      else if fst va \<noteq> [] then Inr va
      else if fst tr \<noteq> [] then Inr tr
      else Inl (RuntimeError ''all sets created are empty''))
   \<and> evaluation_set (tr, va, te) =
     (case filter (\<lambda>s. fst s \<noteq> []) [tr, va, te] of
        [] \<Rightarrow> Inl (RuntimeError ''all sets created are empty'')
      | s # ss \<Rightarrow> Inr (last (s # ss)))"
  unfolding evaluation_set_def evaluation_index_unfold
  by (simp add: tuple3_get_def)

section \<open>The orchestrator: results\<close>

text \<open>
  Claim C7, as the code has it. \<open>explain_cell_graphs\<close> raises an exception of its own
  exactly when the importance calculation has returned and feature names or cell graph
  names are supplied without all three parameters being supplied, and the exception is
  then the ValueError of line 43. With all three or with none supplied it raises none.
  With the output directory alone it raises none either: the directory is passed on to
  the separability calculation.
\<close>

theorem explain_cell_graphs_raises_iff:
  "(\<exists>e. snd (explain_cell_graphs calculate_importance generate_interactives
              calculate_separability cell_graphs_and_labels model explainer_model attributes
              attribute_names prune_misclassified concept_grouping risk patho_prior
              feature_names cell_graph_names out_directory) = Inl (Raised e))
   = ((\<exists>cell_graphs. calculate_importance (fst cell_graphs_and_labels) model explainer_model
          = Inr cell_graphs)
      \<and> (feature_names \<noteq> None \<or> cell_graph_names \<noteq> None)
      \<and> (feature_names = None \<or> cell_graph_names = None \<or> out_directory = None))
   \<and> (\<forall>e. snd (explain_cell_graphs calculate_importance generate_interactives
              calculate_separability cell_graphs_and_labels model explainer_model attributes
              attribute_names prune_misclassified concept_grouping risk patho_prior
              feature_names cell_graph_names out_directory) = Inl (Raised e)
          \<longrightarrow> e = ValueError
                ''feature_names, cell_graph_names, and out_directory must all be provided to create interactive plots.'')
   \<and> snd (explain_cell_graphs calculate_importance generate_interactives
              calculate_separability cell_graphs_and_labels model explainer_model attributes
              attribute_names prune_misclassified concept_grouping risk patho_prior
              None None out_directory)
       = (case calculate_importance (fst cell_graphs_and_labels) model explainer_model of
            Inl x \<Rightarrow> Inl (Propagated x)
          | Inr cell_graphs \<Rightarrow>
              (case calculate_separability cell_graphs_and_labels model attributes
                      attribute_names prune_misclassified concept_grouping risk patho_prior
                      out_directory of
                 Inl x \<Rightarrow> Inl (Propagated x)
               | Inr tables \<Rightarrow> Inr tables))"
  by (auto simp: explain_cell_graphs_def return_separability_def Let_def
           split: sum.splits)

theorem explain_cell_graphs_raises_iff_witness:
  "snd (explain_cell_graphs importance_const interactives_ok separability_pruned
          ([''G1'', ''G7''], [1, 0]) () ''pp'' () [''CD3''] True None None None
          (Some [''CD3'']) None (Some ''out/''))
     = Inl (Raised (ValueError
         ''feature_names, cell_graph_names, and out_directory must all be provided to create interactive plots.''))"
proof -
  have "\<exists>e. snd (explain_cell_graphs importance_const interactives_ok separability_pruned
          ([''G1'', ''G7''], [1, 0]) () ''pp'' () [''CD3''] True None None None
          (Some [''CD3'']) None (Some ''out/'')) = Inl (Raised e)"
    using explain_cell_graphs_raises_iff [of importance_const interactives_ok
        separability_pruned "([''G1'', ''G7''], [1, 0])" "()" "''pp''" "()" "[''CD3'']" True
        None None None "Some [''CD3'']" None "Some ''out/''"]
    by (simp add: importance_const_def)
  then show ?thesis
    using explain_cell_graphs_raises_iff [of importance_const interactives_ok
        separability_pruned "([''G1'', ''G7''], [1, 0])" "()" "''pp''" "()" "[''CD3'']" True
        None None None "Some [''CD3'']" None "Some ''out/''"]
    by blast
qed

text \<open>
  The claim as the spec words it fails when the output directory is the only parameter
  supplied: the parameters are partially supplied, and the call returns.
\<close>

theorem explain_cell_graphs_out_directory_alone:
  "partially_supplied None None (Some ''out/'')
   \<and> snd (explain_cell_graphs importance_const interactives_ok separability_pruned
          ([''G1'', ''G7''], [1, 0]) () ''pp'' () [''CD3''] True None None None
          None None (Some ''out/''))
     = Inr [''G1'']"
  by (simp add: partially_supplied_def explain_cell_graphs_def return_separability_def
        importance_const_def separability_pruned_def)

text \<open>
  Claim C9. When the three visualization parameters are supplied and the importance
  calculation returns, the calls are: the importance calculation on all the graphs
  given, then \<open>generate_interactives\<close> on all the graphs it returned, and only then,
  when that call returns, the separability calculation, which is the only call that is
  given the pruning flag. So the graphs given to \<open>generate_interactives\<close> are the same
  whether or not misclassified graphs are pruned.
\<close>

theorem explain_cell_graphs_interactives_before_pruning:
  assumes "calculate_importance (fst cell_graphs_and_labels) model explainer_model
             = Inr cell_graphs"
  shows "fst (explain_cell_graphs calculate_importance generate_interactives
                calculate_separability cell_graphs_and_labels model explainer_model attributes
                attribute_names prune_misclassified concept_grouping risk patho_prior
                (Some feature_names) (Some cell_graph_names) (Some out_directory))
         = [Calculate_importance (fst cell_graphs_and_labels),
            Generate_interactives cell_graphs feature_names cell_graph_names out_directory]
           @ (case generate_interactives cell_graphs feature_names cell_graph_names
                     out_directory of
                Inl x \<Rightarrow> []
              | Inr u \<Rightarrow> [Calculate_separability cell_graphs_and_labels prune_misclassified
                           (Some out_directory)])"
  using assms
  by (simp add: explain_cell_graphs_def return_separability_def Let_def split: sum.splits)

theorem explain_cell_graphs_interactives_before_pruning_witness:
  "importance_const (fst ([''G1'', ''G7''], [1, 0])) () ''pp''
     = Inr [(''G1'', 2), (''G7'', 2)]
   \<and> fst (explain_cell_graphs importance_const interactives_ok separability_pruned
          ([''G1'', ''G7''], [1, 0]) () ''pp'' () [''CD3''] True None None None
          (Some [''CD3'']) (Some [''G1'', ''G7'']) (Some ''out/''))
     = [Calculate_importance [''G1'', ''G7''],
        Generate_interactives [(''G1'', 2), (''G7'', 2)] [''CD3''] [''G1'', ''G7''] ''out/'',
        Calculate_separability ([''G1'', ''G7''], [1, 0]) True (Some ''out/'')]
   \<and> snd (explain_cell_graphs importance_const interactives_ok separability_pruned
          ([''G1'', ''G7''], [1, 0]) () ''pp'' () [''CD3''] True None None None
          (Some [''CD3'']) (Some [''G1'', ''G7'']) (Some ''out/''))
     = Inr [''G1'']"
proof -
  have h: "importance_const (fst ([''G1'', ''G7''], [1, 0])) () ''pp''
             = Inr [(''G1'', 2), (''G7'', 2)]"
    by (simp add: importance_const_def)
  have "fst (explain_cell_graphs importance_const interactives_ok separability_pruned
          ([''G1'', ''G7''], [1, 0]) () ''pp'' () [''CD3''] True None None None
          (Some [''CD3'']) (Some [''G1'', ''G7'']) (Some ''out/''))
     = [Calculate_importance [''G1'', ''G7''],
        Generate_interactives [(''G1'', 2), (''G7'', 2)] [''CD3''] [''G1'', ''G7''] ''out/'',
        Calculate_separability ([''G1'', ''G7''], [1, 0]) True (Some ''out/'')]"
    using h explain_cell_graphs_interactives_before_pruning
        [where calculate_importance = importance_const
           and cell_graphs_and_labels = "([''G1'', ''G7''], [1, 0])"
           and model = "()" and explainer_model = "''pp''"
           and cell_graphs = "[(''G1'', 2), (''G7'', 2)]"
           and generate_interactives = interactives_ok
           and calculate_separability = separability_pruned
           and attributes = "()" and attribute_names = "[''CD3'']"
           and prune_misclassified = True and concept_grouping = None
           and risk = None and patho_prior = None and feature_names = "[''CD3'']"
           and cell_graph_names = "[''G1'', ''G7'']" and out_directory = "''out/''"]
    by (simp add: interactives_ok_def)
  moreover have "snd (explain_cell_graphs importance_const interactives_ok separability_pruned
          ([''G1'', ''G7''], [1, 0]) () ''pp'' () [''CD3''] True None None None
          (Some [''CD3'']) (Some [''G1'', ''G7'']) (Some ''out/''))
     = Inr [''G1'']"
    by (simp add: explain_cell_graphs_def return_separability_def importance_const_def
          interactives_ok_def separability_pruned_def)
  ultimately show ?thesis using h by simp
qed

section \<open>Matrices: helper facts\<close>

lemma square_iff: "square n M = (length M = n \<and> (\<forall>a<n. length (M ! a) = n))"
  by (auto simp: square_def list_all_length)

lemma length_put [simp]: "length (put M i j v) = length M"
  by (simp add: put_def)

lemma length_put_row [simp]: "length (put M i j v ! a) = length (M ! a)"
  by (cases "i < length M") (auto simp: put_def nth_list_update list_update_beyond)

lemma put_nth:
  "put M i j v ! a ! b =
     (if a = i \<and> b = j \<and> i < length M \<and> j < length (M ! i) then v else M ! a ! b)"
  by (cases "i < length M"; cases "j < length (M ! i)")
     (auto simp: put_def nth_list_update list_update_beyond)

lemma square_put: "square n M \<Longrightarrow> square n (put M i j v)"
  by (simp add: square_iff)

lemma square_ones: "square n (ones n n)"
  by (simp add: square_iff ones_def)

lemma square_zeros: "square n (zeros n n)"
  by (simp add: square_iff zeros_def)

lemma ones_nth: "a < n \<Longrightarrow> b < n \<Longrightarrow> ones n n ! a ! b = 1"
  by (simp add: ones_def)

section \<open>The risk matrix: results\<close>

lemma risk_row_square: "square n risk \<Longrightarrow> square n (risk_row i js risk)"
  by (induction js arbitrary: risk) (simp_all add: square_put)

lemma risk_row_nth:
  "square n risk \<Longrightarrow> i < n \<Longrightarrow> set js \<subseteq> {..<n} \<Longrightarrow> a < n \<Longrightarrow> b < n \<Longrightarrow>
   risk_row i js risk ! a ! b =
     (if a = i \<and> b \<in> set js then of_int \<bar>int i - int b\<bar> else risk ! a ! b)"
proof (induction js arbitrary: risk)
  case Nil
  then show ?case by simp
next
  case (Cons j js)
  have sq: "square n (put risk i j (of_int \<bar>int i - int j\<bar>))"
    using Cons.prems(1) by (rule square_put)
  have "risk_row i (j # js) risk ! a ! b =
        (if a = i \<and> b \<in> set js then of_int \<bar>int i - int b\<bar>
         else put risk i j (of_int \<bar>int i - int j\<bar>) ! a ! b)"
    using Cons.IH [OF sq] Cons.prems by simp
  then show ?case
    using Cons.prems by (auto simp: put_nth square_iff)
qed

lemma risk_rows_square: "square n risk \<Longrightarrow> square n (risk_rows n is risk)"
  by (induction "is" arbitrary: risk) (simp_all add: risk_row_square)

lemma risk_rows_nth:
  "square n risk \<Longrightarrow> set is \<subseteq> {..<n} \<Longrightarrow> a < n \<Longrightarrow> b < n \<Longrightarrow>
   risk_rows n is risk ! a ! b =
     (if a \<in> set is then of_int \<bar>int a - int b\<bar> else risk ! a ! b)"
proof (induction "is" arbitrary: risk)
  case Nil
  then show ?case by simp
next
  case (Cons i "is")
  have sq: "square n (risk_row i [0..<n] risk)"
    using Cons.prems(1) by (rule risk_row_square)
  have i: "i < n" using Cons.prems by simp
  have "risk_rows n (i # is) risk ! a ! b =
        (if a \<in> set is then of_int \<bar>int a - int b\<bar> else risk_row i [0..<n] risk ! a ! b)"
    using Cons.IH [OF sq] Cons.prems by simp
  then show ?case
    using risk_row_nth [OF Cons.prems(1) i _ Cons.prems(3,4), of "[0..<n]"] Cons.prems
    by (auto simp: lessThan_atLeast0)
qed

lemma get_risk_nth:
  "a < n \<Longrightarrow> b < n \<Longrightarrow>
   get_risk n ordinal ! a ! b = (if ordinal then of_int \<bar>int a - int b\<bar> else 1)"
  using risk_rows_nth [OF square_ones, of "[0..<n]" n a b]
  by (simp add: get_risk_def Let_def ones_nth lessThan_atLeast0)

lemma square_get_risk: "square n (get_risk n ordinal)"
  by (simp add: get_risk_def Let_def risk_rows_square square_ones)

text \<open>
  Claim C2, as the code has it. For every number of classes the risk matrix is square;
  in ordinal mode its entry at \<open>(i, j)\<close> is \<open>|i - j|\<close>, so its diagonal is zero; when
  ordinal mode is off every entry is \<open>1\<close>, the diagonal included. The matrix is a function
  of the class count and the mode.
\<close>

theorem get_risk_entries:
  assumes "i < n" and "j < n"
  shows "get_risk n True ! i ! j = of_int \<bar>int i - int j\<bar>
         \<and> get_risk n True ! i ! i = 0
         \<and> get_risk n False ! i ! j = 1
         \<and> get_risk n False ! i ! i = 1
         \<and> square n (get_risk n True) \<and> square n (get_risk n False)"
  using assms by (simp add: get_risk_nth square_get_risk)

theorem get_risk_entries_witness:
  "(0::nat) < 3 \<and> (2::nat) < 3
   \<and> get_risk 3 True = [[0, 1, 2], [1, 0, 1], [2, 1, 0]]
   \<and> get_risk 3 True ! 0 ! 2 = 2
   \<and> get_risk 3 False = [[1, 1, 1], [1, 1, 1], [1, 1, 1]]"
proof -
  have "get_risk 3 True ! 0 ! 2 = of_int \<bar>int 0 - int 2\<bar>"
    using get_risk_entries [of 0 3 2] by simp
  moreover have "get_risk 3 True = [[0, 1, 2], [1, 0, 1], [2, 1, 0]]"
    by (simp add: get_risk_def ones_def put_def upt_rec numeral_3_eq_3)
  moreover have "get_risk 3 False = [[1, 1, 1], [1, 1, 1], [1, 1, 1]]"
    by (simp add: get_risk_def ones_def numeral_3_eq_3)
  ultimately show ?thesis by simp
qed

text \<open>
  With ordinal mode off the diagonal of the risk matrix is \<open>1\<close>, not \<open>0\<close>: the matrix
  is \<open>np.ones\<close> and is not changed.
\<close>

theorem get_risk_uniform_diagonal:
  "get_risk 2 False ! 0 ! 0 = 1 \<and> get_risk 2 False ! 0 ! 0 \<noteq> 0"
  by (simp add: get_risk_def ones_def numeral_2_eq_2)

section \<open>The distance matrix: helper facts\<close>

lemma set_item_Inr:
  "set_item M i j v = Inr M' \<longleftrightarrow> i < length M \<and> j < length (M ! i) \<and> M' = put M i j v"
  by (auto simp: set_item_def)

lemma distance_row_entries:
  "distance_row d input i js M = Inr M' \<Longrightarrow> square n M \<Longrightarrow>
   square n M' \<and>
   (\<forall>a<n. \<forall>b<n. M' ! a ! b =
      (if a = i \<and> b \<in> set js \<and> i < b then d (input ! i) (input ! b)
       else if b = i \<and> a \<in> set js \<and> i < a then d (input ! i) (input ! a)
       else M ! a ! b))"
proof (induction js arbitrary: M)
  case Nil
  then show ?case by simp
next
  case (Cons j js)
  show ?case
  proof (cases "i < j")
    case False
    then show ?thesis using Cons.IH [of M] Cons.prems by auto
  next
    case True
    let ?s = "d (input ! i) (input ! j)"
    from Cons.prems(1) True obtain M1 M2 where
      m1: "set_item M i j ?s = Inr M1" and m2: "set_item M1 j i ?s = Inr M2"
      and rest: "distance_row d input i js M2 = Inr M'"
      by (auto simp: Let_def split: sum.splits)
    have e1: "i < length M" "j < length (M ! i)" "M1 = put M i j ?s"
      using m1 by (simp_all add: set_item_Inr)
    have e2: "j < length M1" "i < length (M1 ! j)" "M2 = put M1 j i ?s"
      using m2 by (simp_all add: set_item_Inr)
    have sq2: "square n M2"
      using Cons.prems(2) e1 e2 by (simp add: square_put)
    have ij: "i < n" "j < n"
      using e1 e2 Cons.prems(2) by (simp_all add: square_iff)
    have a1: "M1 ! a ! b = (if a = i \<and> b = j then ?s else M ! a ! b)" for a b
      using e1(1,2) by (simp add: e1(3) put_nth)
    have a2: "M2 ! a ! b = (if a = j \<and> b = i then ?s else M1 ! a ! b)" for a b
      using e2(1,2) by (simp add: e2(3) put_nth)
    have M2: "M2 ! a ! b =
        (if (a = i \<and> b = j) \<or> (a = j \<and> b = i) then ?s else M ! a ! b)" for a b
      unfolding a2 [of a b] a1 [of a b] by argo
    from Cons.IH [OF rest sq2] have sq': "square n M'" and
      E: "\<And>a b. a < n \<Longrightarrow> b < n \<Longrightarrow> M' ! a ! b =
        (if a = i \<and> b \<in> set js \<and> i < b then d (input ! i) (input ! b)
         else if b = i \<and> a \<in> set js \<and> i < a then d (input ! i) (input ! a)
         else M2 ! a ! b)"
      by simp_all
    have "M' ! a ! b =
        (if a = i \<and> b \<in> set (j # js) \<and> i < b then d (input ! i) (input ! b)
         else if b = i \<and> a \<in> set (j # js) \<and> i < a then d (input ! i) (input ! a)
         else M ! a ! b)" if "a < n" "b < n" for a b
    proof -
      have m: "M2 ! a ! b = (if (a = i \<and> b = j) \<or> (a = j \<and> b = i) then ?s else M ! a ! b)"
        by (rule M2)
      show ?thesis
        unfolding E [OF that] m using True by auto
    qed
    with sq' show ?thesis by blast
  qed
qed

lemma distance_rows_entries:
  "distance_rows d input is M = Inr M' \<Longrightarrow> square n M \<Longrightarrow>
   square n M' \<and>
   (\<forall>a<n. \<forall>b<n. M' ! a ! b =
      (if a \<in> set is \<and> a < b \<and> b < length input then d (input ! a) (input ! b)
       else if b \<in> set is \<and> b < a \<and> a < length input then d (input ! b) (input ! a)
       else M ! a ! b))"
proof (induction "is" arbitrary: M)
  case Nil
  then show ?case by simp
next
  case (Cons i "is")
  from Cons.prems(1) obtain M1 where
    m1: "distance_row d input i [0..<length input] M = Inr M1"
    and rest: "distance_rows d input is M1 = Inr M'"
    by (auto split: sum.splits)
  from distance_row_entries [OF m1 Cons.prems(2)] have
    sq1: "square n M1" and
    M1: "\<forall>a<n. \<forall>b<n. M1 ! a ! b =
      (if a = i \<and> b < length input \<and> i < b then d (input ! i) (input ! b)
       else if b = i \<and> a < length input \<and> i < a then d (input ! i) (input ! a)
       else M ! a ! b)"
    by auto
  from Cons.IH [OF rest sq1] have sq': "square n M'" and
    E: "\<And>a b. a < n \<Longrightarrow> b < n \<Longrightarrow> M' ! a ! b =
      (if a \<in> set is \<and> a < b \<and> b < length input then d (input ! a) (input ! b)
       else if b \<in> set is \<and> b < a \<and> a < length input then d (input ! b) (input ! a)
       else M1 ! a ! b)"
    by simp_all
  have "M' ! a ! b =
      (if a \<in> set (i # is) \<and> a < b \<and> b < length input then d (input ! a) (input ! b)
       else if b \<in> set (i # is) \<and> b < a \<and> a < length input then d (input ! b) (input ! a)
       else M ! a ! b)" if "a < n" "b < n" for a b
  proof -
    have m: "M1 ! a ! b =
      (if a = i \<and> b < length input \<and> i < b then d (input ! i) (input ! b)
       else if b = i \<and> a < length input \<and> i < a then d (input ! i) (input ! a)
       else M ! a ! b)"
      using M1 that by blast
    show ?thesis
      unfolding E [OF that] m by auto
  qed
  with sq' show ?case by blast
qed

lemma distance_row_total:
  "square n M \<Longrightarrow> i < n \<Longrightarrow> set js \<subseteq> {..<n} \<Longrightarrow> \<exists>M'. distance_row d input i js M = Inr M'"
proof (induction js arbitrary: M)
  case Nil
  then show ?case by simp
next
  case (Cons j js)
  have j: "j < n" using Cons.prems by simp
  let ?s = "d (input ! i) (input ! j)"
  have sq: "square n (put (put M i j ?s) j i ?s)"
    using Cons.prems(1) by (simp add: square_put)
  have s1: "set_item M i j ?s = Inr (put M i j ?s)"
    using Cons.prems j by (simp add: set_item_def square_iff)
  have s2: "set_item (put M i j ?s) j i ?s = Inr (put (put M i j ?s) j i ?s)"
    using Cons.prems j by (simp add: set_item_def square_iff)
  show ?case
    using Cons.IH [OF sq Cons.prems(2)] Cons.IH [OF Cons.prems(1,2)] Cons.prems(3) s1 s2
    by (auto simp: Let_def)
qed

lemma distance_rows_total:
  "square n M \<Longrightarrow> length input \<le> n \<Longrightarrow> set is \<subseteq> {..<n} \<Longrightarrow>
   \<exists>M'. distance_rows d input is M = Inr M'"
proof (induction "is" arbitrary: M)
  case Nil
  then show ?case by simp
next
  case (Cons i "is")
  have i: "i < n" using Cons.prems by simp
  have "set [0..<length input] \<subseteq> {..<n}" using Cons.prems(2) by auto
  from distance_row_total [OF Cons.prems(1) i this] obtain M1 where
    m1: "distance_row d input i [0..<length input] M = Inr M1" by blast
  have sq1: "square n M1"
    using distance_row_entries [OF m1 Cons.prems(1)] by simp
  show ?case
    using Cons.IH [OF sq1 Cons.prems(2)] Cons.prems(3) m1 by auto
qed

lemma rint_nonneg: "0 \<le> x \<Longrightarrow> 0 \<le> rint x"
  by (auto simp: rint_def Let_def)

lemma round4_nonneg: "0 \<le> x \<Longrightarrow> 0 \<le> round4 x"
  using rint_nonneg [of "x * 10000"] by (simp add: round4_def)

lemma round4_zero [simp]: "round4 0 = 0"
  by (simp add: round4_def rint_def)

lemma square_np_round4: "square n M \<Longrightarrow> square n (np_round4 M)"
  by (simp add: square_iff np_round4_def)

lemma np_round4_nth: "square n M \<Longrightarrow> a < n \<Longrightarrow> b < n \<Longrightarrow> np_round4 M ! a ! b = round4 (M ! a ! b)"
  by (simp add: square_iff np_round4_def)

lemma zeros_nth: "a < n \<Longrightarrow> b < n \<Longrightarrow> zeros n n ! a ! b = 0"
  by (simp add: zeros_def)

lemma get_distance_entries:
  assumes "get_distance d n input = Inr M"
  shows "square n M"
    and "a < n \<Longrightarrow> b < n \<Longrightarrow> M ! a ! b =
      (if a < b \<and> b < length input then round4 (d (input ! a) (input ! b))
       else if b < a \<and> a < length input then round4 (d (input ! b) (input ! a))
       else 0)"
proof -
  from assms obtain M0 where
    m0: "distance_rows d input [0..<length input] (zeros n n) = Inr M0"
    and M: "M = np_round4 M0"
    by (auto simp: get_distance_def split: sum.splits)
  note e = distance_rows_entries [OF m0 square_zeros]
  show "square n M" using e M by (simp add: square_np_round4)
  show "M ! a ! b =
      (if a < b \<and> b < length input then round4 (d (input ! a) (input ! b))
       else if b < a \<and> a < length input then round4 (d (input ! b) (input ! a))
       else 0)" if "a < n" "b < n"
    using e M that by (auto simp: np_round4_nth zeros_nth)
qed

lemma get_distance_total:
  "length input \<le> n \<Longrightarrow> \<exists>M. get_distance d n input = Inr M"
proof -
  assume "length input \<le> n"
  then have "set [0..<length input] \<subseteq> {..<n}" by auto
  from distance_rows_total [OF square_zeros \<open>length input \<le> n\<close> this]
  obtain M' where "distance_rows d input [0..<length input] (zeros n n) = Inr M'"
    by blast
  then show ?thesis by (simp add: get_distance_def)
qed

section \<open>The score: helper facts\<close>

lemma symmetric_iff: "symmetric n M = (\<forall>a<n. \<forall>b<n. M ! a ! b = M ! b ! a)"
  by (auto simp: symmetric_def list_all_iff)

lemma zero_diagonal_iff: "zero_diagonal n M = (\<forall>a<n. M ! a ! a = 0)"
  by (auto simp: zero_diagonal_def list_all_iff)

lemma non_negative_square:
  "square n M \<Longrightarrow> non_negative M = (\<forall>a<n. \<forall>b<n. 0 \<le> M ! a ! b)"
  by (auto simp: non_negative_def square_iff list_all_length)

lemma symmetric_get_risk: "symmetric n (get_risk n ordinal)"
  by (simp add: symmetric_iff get_risk_nth abs_minus_commute)

lemma cityblock_nonneg: "0 \<le> cityblock a b"
  unfolding cityblock_def by (rule sum_list_nonneg) auto

lemma np_sum_multiply:
  assumes "square n A" and "square n B"
  shows "np_sum (np_multiply A B) = (\<Sum>i = 0..<n. \<Sum>j = 0..<n. A ! i ! j * B ! i ! j)"
proof -
  have len: "length A = n" "length B = n"
    and rows: "\<And>i. i < n \<Longrightarrow> length (A ! i) = n" "\<And>i. i < n \<Longrightarrow> length (B ! i) = n"
    using assms by (simp_all add: square_iff)
  have row: "sum_list (map2 (*) (A ! i) (B ! i)) = (\<Sum>j = 0..<n. A ! i ! j * B ! i ! j)"
    if "i < n" for i
    using rows [OF that] by (simp add: sum_list_sum_nth)
  have "np_sum (np_multiply A B)
      = (\<Sum>i = 0..<n. sum_list (map2 (*) (A ! i) (B ! i)))"
    using len by (simp add: np_sum_def np_multiply_def sum_list_sum_nth)
  also have "\<dots> = (\<Sum>i = 0..<n. \<Sum>j = 0..<n. A ! i ! j * B ! i ! j)"
    by (rule sum.cong) (simp_all add: row)
  finally show ?thesis .
qed

lemma symmetric_sum_upper:
  fixes f :: "nat \<Rightarrow> nat \<Rightarrow> real"
  assumes "\<And>i j. i < n \<Longrightarrow> j < n \<Longrightarrow> f i j = f j i" and "\<And>i. i < n \<Longrightarrow> f i i = 0"
  shows "(\<Sum>i = 0..<n. \<Sum>j = 0..<n. f i j) = 2 * (\<Sum>i = 0..<n. \<Sum>j = Suc i..<n. f i j)"
  using assms
proof (induction n)
  case 0
  then show ?case by simp
next
  case (Suc n)
  have IH: "(\<Sum>i = 0..<n. \<Sum>j = 0..<n. f i j) = 2 * (\<Sum>i = 0..<n. \<Sum>j = Suc i..<n. f i j)"
    using Suc.prems by (intro Suc.IH) simp_all
  have col: "(\<Sum>j = 0..<n. f n j) = (\<Sum>i = 0..<n. f i n)"
    by (rule sum.cong) (simp_all add: Suc.prems(1))
  have up: "(\<Sum>j = Suc i..<Suc n. f i j) = (\<Sum>j = Suc i..<n. f i j) + f i n" if "i < n" for i
    using that by simp
  have "(\<Sum>i = 0..<Suc n. \<Sum>j = 0..<Suc n. f i j)
      = (\<Sum>i = 0..<n. (\<Sum>j = 0..<n. f i j) + f i n) + ((\<Sum>j = 0..<n. f n j) + f n n)"
    by simp
  also have "\<dots> = (\<Sum>i = 0..<n. \<Sum>j = 0..<n. f i j) + 2 * (\<Sum>i = 0..<n. f i n)"
    using col Suc.prems(2) [of n] by (simp add: sum.distrib)
  finally have lhs: "(\<Sum>i = 0..<Suc n. \<Sum>j = 0..<Suc n. f i j)
      = 2 * (\<Sum>i = 0..<n. \<Sum>j = Suc i..<n. f i j) + 2 * (\<Sum>i = 0..<n. f i n)"
    using IH by simp
  have "(\<Sum>i = 0..<Suc n. \<Sum>j = Suc i..<Suc n. f i j)
      = (\<Sum>i = 0..<n. \<Sum>j = Suc i..<Suc n. f i j)"
    by simp
  also have "\<dots> = (\<Sum>i = 0..<n. (\<Sum>j = Suc i..<n. f i j) + f i n)"
    by (rule sum.cong) (simp_all add: up)
  finally have rhs: "(\<Sum>i = 0..<Suc n. \<Sum>j = Suc i..<Suc n. f i j)
      = (\<Sum>i = 0..<n. \<Sum>j = Suc i..<n. f i j) + (\<Sum>i = 0..<n. f i n)"
    by (simp add: sum.distrib)
  show ?case unfolding lhs rhs by simp
qed

lemma aggregate_score_upper:
  assumes "square n distance" and "square n risk"
    and "symmetric n distance" and "zero_diagonal n distance" and "symmetric n risk"
  shows "aggregate_score distance risk = round4 (upper_triangle_sum n distance risk)"
proof -
  have "(\<Sum>i = 0..<n. \<Sum>j = 0..<n. distance ! i ! j * risk ! i ! j)
      = 2 * (\<Sum>i = 0..<n. \<Sum>j = Suc i..<n. distance ! i ! j * risk ! i ! j)"
    using assms(3,4,5)
    by (intro symmetric_sum_upper) (simp_all add: symmetric_iff zero_diagonal_iff)
  then show ?thesis
    by (simp add: aggregate_score_def upper_triangle_sum_def np_sum_multiply [OF assms(1,2)])
qed

lemma get_distance_properties:
  assumes "get_distance d n input = Inr M"
  shows "square n M" and "symmetric n M" and "zero_diagonal n M"
    and "(\<forall>i j. i < j \<and> j < length input \<longrightarrow> 0 \<le> d (input ! i) (input ! j)) \<Longrightarrow> non_negative M"
proof -
  note e = get_distance_entries [OF assms]
  show sq: "square n M" by (rule e(1))
  show "symmetric n M"
    unfolding symmetric_iff
  proof (intro allI impI)
    fix a b assume "a < n" "b < n"
    then show "M ! a ! b = M ! b ! a"
      by (simp add: e(2))
  qed
  show "zero_diagonal n M"
    unfolding zero_diagonal_iff by (simp add: e(2))
  show "non_negative M"
    if "\<forall>i j. i < j \<and> j < length input \<longrightarrow> 0 \<le> d (input ! i) (input ! j)"
    unfolding non_negative_square [OF sq] using that
    by (auto simp: e(2) round4_nonneg)
qed

section \<open>The distance matrix and the score: results\<close>

text \<open>
  Claim C1. For every square distance matrix that is symmetric with a zero diagonal, the
  score that the code computes, the sum of all the products of distance and risk divided
  by two and rounded to four decimals, is the rounded sum over the class pairs \<open>i < j\<close>:
  for every risk matrix of the data model (square and symmetric), and for the risk
  matrices that \<open>get_risk\<close> returns in both of its modes, the matrix of ones included.
\<close>

theorem aggregate_score_upper_triangle:
  assumes "square n distance" and "symmetric n distance" and "zero_diagonal n distance"
  shows "(square n risk \<and> symmetric n risk \<longrightarrow>
            aggregate_score distance risk = round4 (upper_triangle_sum n distance risk))
         \<and> aggregate_score distance (get_risk n ordinal)
             = round4 (upper_triangle_sum n distance (get_risk n ordinal))"
  using assms
  by (simp add: aggregate_score_upper square_get_risk symmetric_get_risk)

theorem aggregate_score_upper_triangle_witness:
  "square 3 [[0, 1, 3], [1, 0, 2], [3, 2, 0]]
   \<and> symmetric 3 [[0, 1, 3], [1, 0, 2], [3, 2, 0]]
   \<and> zero_diagonal 3 [[0, 1, 3], [1, 0, 2], [3, 2, 0]]
   \<and> square 3 [[0, 1, 2], [1, 0, 1], [2, 1, 0]]
   \<and> symmetric 3 [[0, 1, 2], [1, 0, 1], [2, 1, 0]]
   \<and> aggregate_score [[0, 1, 3], [1, 0, 2], [3, 2, 0]] [[0, 1, 2], [1, 0, 1], [2, 1, 0]] = 9
   \<and> get_risk 3 False = [[1, 1, 1], [1, 1, 1], [1, 1, 1]]
   \<and> aggregate_score [[0, 1, 3], [1, 0, 2], [3, 2, 0]] (get_risk 3 False) = 6"
proof -
  let ?D = "[[0, 1, 3], [1, 0, 2], [3, 2, 0]] :: real list list"
  let ?R = "[[0, 1, 2], [1, 0, 1], [2, 1, 0]] :: real list list"
  have d: "square 3 ?D" "symmetric 3 ?D" "zero_diagonal 3 ?D"
    by (simp_all add: symmetric_def square_def zero_diagonal_def upt_rec numeral_3_eq_3)
  have r: "square 3 ?R" "symmetric 3 ?R"
    by (simp_all add: symmetric_def square_def upt_rec numeral_3_eq_3)
  have ones: "get_risk 3 False = [[1, 1, 1], [1, 1, 1], [1, 1, 1]]"
    by (simp add: get_risk_def ones_def numeral_3_eq_3)
  have u1: "round4 (upper_triangle_sum 3 ?D ?R) = 9"
    by (simp add: upper_triangle_sum_def sum.atLeast_Suc_lessThan numeral_3_eq_3
          round4_def rint_def)
  have u2: "round4 (upper_triangle_sum 3 ?D [[1, 1, 1], [1, 1, 1], [1, 1, 1]]) = 6"
    by (simp add: upper_triangle_sum_def sum.atLeast_Suc_lessThan numeral_3_eq_3
          round4_def rint_def)
  from aggregate_score_upper_triangle [OF d, of ?R False] r
  have "aggregate_score ?D ?R = round4 (upper_triangle_sum 3 ?D ?R)"
    and "aggregate_score ?D (get_risk 3 False)
           = round4 (upper_triangle_sum 3 ?D (get_risk 3 False))"
    by simp_all
  then show ?thesis
    using d r ones u1 u2 by simp
qed

text \<open>
  Claim C8. When the input has at most as many entries as there are tumor types,
  \<open>get_distance\<close> returns a matrix, and every matrix it returns is square of the size of
  the tumor types, symmetric and zero on the diagonal; its entries are not negative when
  the distance function gives no negative distance for the pairs of the input.
\<close>

theorem get_distance_symmetric_zero_diagonal:
  "(length input \<le> n \<longrightarrow> (\<exists>M. get_distance d n input = Inr M))
   \<and> (\<forall>M. get_distance d n input = Inr M \<longrightarrow>
         square n M \<and> symmetric n M \<and> zero_diagonal n M
         \<and> ((\<forall>i j. i < j \<and> j < length input \<longrightarrow> 0 \<le> d (input ! i) (input ! j))
              \<longrightarrow> non_negative M))"
  using get_distance_total [of input n d] get_distance_properties [of d n input]
  by blast

theorem get_distance_symmetric_zero_diagonal_witness:
  "length [Vec [0], Vec [1], Vec [3]] \<le> 3
   \<and> get_distance cityblock 3 [Vec [0], Vec [1], Vec [3]]
       = Inr [[0, 1, 3], [1, 0, 2], [3, 2, 0]]
   \<and> square 3 [[0, 1, 3], [1, 0, 2], [3, 2, 0]]
   \<and> symmetric 3 [[0, 1, 3], [1, 0, 2], [3, 2, 0]]
   \<and> zero_diagonal 3 [[0, 1, 3], [1, 0, 2], [3, 2, 0]]
   \<and> non_negative [[0, 1, 3], [1, 0, 2], [3, 2, 0]]"
proof -
  have g: "get_distance cityblock 3 [Vec [0], Vec [1], Vec [3]]
             = Inr [[0, 1, 3], [1, 0, 2], [3, 2, 0]]"
    by (simp add: get_distance_def zeros_def set_item_def put_def cityblock_def np_round4_def
          round4_def rint_def upt_rec numeral_3_eq_3 Let_def)
  have nn: "\<forall>i j. i < j \<and> j < length [Vec [0], Vec [1], Vec [3]] \<longrightarrow>
              0 \<le> cityblock ([Vec [0], Vec [1], Vec [3]] ! i) ([Vec [0], Vec [1], Vec [3]] ! j)"
    by (simp add: cityblock_nonneg)
  from get_distance_symmetric_zero_diagonal [of "[Vec [0], Vec [1], Vec [3]]" 3 cityblock] g nn
  show ?thesis by simp
qed

text \<open>
  Claim C6, as the code has it. The entries of the matrix that \<open>get_distance\<close> returns
  are the pairwise distances rounded to four decimals, not negative when the distances
  are not; and \<open>compute_concept_score\<close> computes the score from that rounded matrix: it
  is the rounded sum over the class pairs of the rounded distances times the risk.
\<close>

theorem compute_concept_score_rounded_distances:
  assumes "(if args_distance = ''hist''
            then histogram_analysis ops histogramdd concept (f_float ops (1 / 100))
            else Inr concept) = Inr concept'"
    and "get_distance d n concept' = Inr M"
  shows "(\<forall>i j. i < j \<and> j < n \<and> j < length concept' \<longrightarrow>
            M ! i ! j = round4 (d (concept' ! i) (concept' ! j)))
         \<and> ((\<forall>i j. i < j \<and> j < length concept' \<longrightarrow> 0 \<le> d (concept' ! i) (concept' ! j))
              \<longrightarrow> non_negative M)
         \<and> compute_concept_score d ops histogramdd args_distance ordinal n concept
             = Inr (round4 (upper_triangle_sum n M (get_risk n ordinal)))"
proof -
  note p = get_distance_properties [OF assms(2)]
  have "aggregate_score M (get_risk n ordinal)
          = round4 (upper_triangle_sum n M (get_risk n ordinal))"
    using p(1,2,3) by (intro aggregate_score_upper square_get_risk symmetric_get_risk)
  then have "compute_concept_score d ops histogramdd args_distance ordinal n concept
             = Inr (round4 (upper_triangle_sum n M (get_risk n ordinal)))"
    using assms by (simp add: compute_concept_score_def)
  moreover have "M ! i ! j = round4 (d (concept' ! i) (concept' ! j))"
    if "i < j" "j < n" "j < length concept'" for i j
    using get_distance_entries(2) [OF assms(2), of i j] that by simp
  ultimately show ?thesis
    using p(4) by blast
qed

lemma cityblock64_nonneg: "0 \<le> cityblock64 a b"
  unfolding cityblock64_def by (rule sum_list_nonneg) auto

theorem compute_concept_score_rounded_distances_witness:
  "(if ''euclidean'' = ''hist''
    then histogram_analysis binary64 histogram1
           [Vec [Finite 0], Vec [Finite (4 / 100000)], Vec [Finite (8 / 100000)]]
           (f_float binary64 (1 / 100))
    else Inr [Vec [Finite 0], Vec [Finite (4 / 100000)], Vec [Finite (8 / 100000)]])
     = Inr [Vec [Finite 0], Vec [Finite (4 / 100000)], Vec [Finite (8 / 100000)]]
   \<and> get_distance cityblock64 3
         [Vec [Finite 0], Vec [Finite (4 / 100000)], Vec [Finite (8 / 100000)]]
       = Inr [[0, 0, 1 / 10000], [0, 0, 0], [1 / 10000, 0, 0]]
   \<and> non_negative [[0, 0, 1 / 10000], [0, 0, 0], [1 / 10000, 0, 0]]
   \<and> compute_concept_score cityblock64 binary64 histogram1 ''euclidean'' False 3
        [Vec [Finite 0], Vec [Finite (4 / 100000)], Vec [Finite (8 / 100000)]]
       = Inr (round4 (upper_triangle_sum 3 [[0, 0, 1 / 10000], [0, 0, 0], [1 / 10000, 0, 0]]
                (get_risk 3 False)))"
proof -
  let ?c = "[Vec [Finite 0], Vec [Finite (4 / 100000)], Vec [Finite (8 / 100000)]]"
  have h: "(if ''euclidean'' = ''hist''
            then histogram_analysis binary64 histogram1 ?c (f_float binary64 (1 / 100))
            else Inr ?c) = Inr ?c"
    by simp
  have g: "get_distance cityblock64 3 ?c
             = Inr [[0, 0, 1 / 10000], [0, 0, 0], [1 / 10000, 0, 0]]"
    by (simp add: get_distance_def zeros_def set_item_def put_def cityblock64_def np_round4_def
          round4_def rint_def upt_rec numeral_3_eq_3 Let_def)
  have nn: "\<forall>i j. i < j \<and> j < length ?c \<longrightarrow> 0 \<le> cityblock64 (?c ! i) (?c ! j)"
    by (simp add: cityblock64_nonneg)
  from compute_concept_score_rounded_distances [OF h g, of False] nn h g
  show ?thesis by simp
qed

text \<open>
  The score is not the one that the distances at full precision give: three classes at
  the pairwise distances 0.00004, 0.00004 and 0.00008 have the score 0.0001, the sum of
  the rounded distances, where the full precision gives 0.0002.
\<close>

theorem compute_concept_score_not_full_precision:
  "compute_concept_score cityblock64 binary64 histogram1 ''euclidean'' False 3
      [Vec [Finite 0], Vec [Finite (4 / 100000)], Vec [Finite (8 / 100000)]] = Inr (1 / 10000)
   \<and> full_precision_score cityblock64 3
        [Vec [Finite 0], Vec [Finite (4 / 100000)], Vec [Finite (8 / 100000)]]
       (get_risk 3 False) = 2 / 10000"
proof -
  have g: "get_distance cityblock64 3
             [Vec [Finite 0], Vec [Finite (4 / 100000)], Vec [Finite (8 / 100000)]]
             = Inr [[0, 0, 1 / 10000], [0, 0, 0], [1 / 10000, 0, 0]]"
    by (simp add: get_distance_def zeros_def set_item_def put_def cityblock64_def np_round4_def
          round4_def rint_def upt_rec numeral_3_eq_3 Let_def)
  have r: "get_risk 3 False = [[1, 1, 1], [1, 1, 1], [1, 1, 1]]"
    by (simp add: get_risk_def ones_def numeral_3_eq_3)
  have s: "aggregate_score [[0, 0, 1 / 10000], [0, 0, 0], [1 / 10000, 0, 0]]
             [[1, 1, 1], [1, 1, 1], [1, 1, 1]] = 1 / 10000"
    by (simp add: aggregate_score_def np_sum_def np_multiply_def round4_def rint_def Let_def)
  have f: "full_precision_score cityblock64 3
             [Vec [Finite 0], Vec [Finite (4 / 100000)], Vec [Finite (8 / 100000)]]
             [[1, 1, 1], [1, 1, 1], [1, 1, 1]] = 2 / 10000"
    by (simp add: full_precision_score_def cityblock64_def round4_def rint_def Let_def
          sum.atLeast_Suc_lessThan numeral_3_eq_3)
  show ?thesis
    using g r s f by (simp add: compute_concept_score_def)
qed

section \<open>Pooling per tumor type: results\<close>

lemma stack_first: "rs \<noteq> [] \<Longrightarrow> stack rs 0 output_2 = stack rs 0 None"
  by (cases rs) simp_all

lemma gather_concat:
  "gather input idx output_1 = Inr nodes \<Longrightarrow>
   nodes = output_1 @ concat (map (\<lambda>k. input ! k) idx)"
proof (induction idx arbitrary: output_1)
  case Nil
  then show ?case by simp
next
  case (Cons k idx)
  then have "gather input idx (output_1 @ input ! k) = Inr nodes"
    by (simp split: if_splits)
  from Cons.IH [OF this] show ?case by simp
qed

lemma merge_loop_entries:
  "merge_loop tumor_labels input is output_2 output = Inr res \<Longrightarrow>
   length res = length output + length is
   \<and> (\<forall>k<length output. res ! k = output ! k)
   \<and> (\<forall>k<length is. \<forall>nodes.
         gather input (where_label tumor_labels (is ! k)) [] = Inr nodes \<and> nodes \<noteq> []
         \<longrightarrow> stack nodes 0 None = Inr (Some (res ! (length output + k))))"
proof (induction "is" arbitrary: output_2 "output")
  case Nil
  then show ?case by simp
next
  case (Cons i "is")
  from Cons.prems obtain output_1 a where
    g: "gather input (where_label tumor_labels i) [] = Inr output_1"
    and s: "stack output_1 0 output_2 = Inr (Some a)"
    and rest: "merge_loop tumor_labels input is (Some a) (output @ [a]) = Inr res"
    by (auto split: sum.splits option.splits)
  from Cons.IH [OF rest] have
    len: "length res = length output + 1 + length is"
    and keep: "\<And>k. k < length output + 1 \<Longrightarrow> res ! k = (output @ [a]) ! k"
    and ent: "\<And>k nodes. k < length is \<Longrightarrow>
          gather input (where_label tumor_labels (is ! k)) [] = Inr nodes \<Longrightarrow> nodes \<noteq> [] \<Longrightarrow>
          stack nodes 0 None = Inr (Some (res ! (length output + 1 + k)))"
    by simp_all
  have here: "res ! length output = a"
    using keep [of "length output"] by simp
  have "stack nodes 0 None = Inr (Some (res ! (length output + k)))"
    if "k < length (i # is)"
      and "gather input (where_label tumor_labels ((i # is) ! k)) [] = Inr nodes"
      and "nodes \<noteq> []" for k nodes
  proof (cases k)
    case 0
    with that g have "nodes = output_1" by simp
    with that(3) s here 0 show ?thesis
      using stack_first [of nodes output_2] by simp
  next
    case (Suc k')
    with that ent [of k' nodes] show ?thesis by simp
  qed
  moreover have "res ! k = output ! k" if "k < length output" for k
    using keep [of k] that by (simp add: nth_append)
  ultimately show ?case using len by simp
qed

text \<open>
  Claim C5, as the code has it. Whenever the pooling returns, its output has one entry
  for every class index below the number of tumor types: no class is dropped. The entry
  of a class that has a node is the stack of the concept arrays of the nodes of that
  class alone, in the order of its graphs. The distance computation that follows runs
  over all these entries, on a matrix of the size of the number of tumor types.
\<close>

theorem merge_concepts_one_entry_per_class:
  assumes "merge_concepts_per_tumor_type tumor_labels input = Inr output"
  shows "length output = n_tumors tumor_labels
         \<and> (\<forall>i<n_tumors tumor_labels. \<forall>nodes.
               gather input (where_label tumor_labels i) [] = Inr nodes \<and> nodes \<noteq> []
               \<longrightarrow> nodes = concat (map (\<lambda>k. input ! k) (where_label tumor_labels i))
                   \<and> stack nodes 0 None = Inr (Some (output ! i)))
         \<and> (\<exists>M. get_distance d (n_tumors tumor_labels) output = Inr M
                \<and> square (n_tumors tumor_labels) M)"
proof -
  note e = merge_loop_entries [OF assms [unfolded merge_concepts_per_tumor_type_def]]
  have len: "length output = n_tumors tumor_labels"
    using e by simp
  have "stack nodes 0 None = Inr (Some (output ! i))"
    if "i < n_tumors tumor_labels"
      and "gather input (where_label tumor_labels i) [] = Inr nodes" and "nodes \<noteq> []"
    for i nodes
    using e that by simp
  moreover have "nodes = concat (map (\<lambda>k. input ! k) (where_label tumor_labels i))"
    if "gather input (where_label tumor_labels i) [] = Inr nodes" for i nodes
    using gather_concat [OF that] by simp
  moreover obtain M where M: "get_distance d (n_tumors tumor_labels) output = Inr M"
    using get_distance_total [of "output" "n_tumors tumor_labels" d] len by auto
  moreover have "square (n_tumors tumor_labels) M"
    using get_distance_properties(1) [OF M] .
  ultimately show ?thesis using len by blast
qed

theorem merge_concepts_one_entry_per_class_witness:
  "merge_concepts_per_tumor_type [0, 1, 1] [[Vec [1, 2 :: real]], [Vec [3, 4]], [Vec [5, 6], Vec [7, 8]]]
     = Inr [Vec [1, 2 :: real], Mat [[3, 4], [5, 6], [7, 8]]]
   \<and> length [Vec [1, 2 :: real], Mat [[3, 4], [5, 6], [7, 8]]] = n_tumors [0, 1, 1]
   \<and> gather [[Vec [1, 2 :: real]], [Vec [3, 4]], [Vec [5, 6], Vec [7, 8]]] (where_label [0, 1, 1] 1) []
       = Inr [Vec [3, 4], Vec [5, 6], Vec [7, 8]]
   \<and> stack [Vec [3, 4 :: real], Vec [5, 6], Vec [7, 8]] 0 None
       = Inr (Some ([Vec [1, 2], Mat [[3, 4], [5, 6], [7, 8]]] ! 1))
   \<and> (\<exists>M. get_distance cityblock (n_tumors [0, 1, 1])
              [Vec [1, 2], Mat [[3, 4], [5, 6], [7, 8]]] = Inr M
          \<and> square (n_tumors [0, 1, 1]) M)"
proof -
  let ?input = "[[Vec [1, 2 :: real]], [Vec [3, 4]], [Vec [5, 6], Vec [7, 8]]]"
  let ?out = "[Vec [1, 2 :: real], Mat [[3, 4], [5, 6], [7, 8]]]"
  have n: "n_tumors [0, 1, 1] = 2"
    by (simp add: n_tumors_def)
  have w: "where_label [0, 1, 1] 0 = [0]" "where_label [0, 1, 1] (Suc 0) = [1, 2]"
    by (simp_all add: where_label_def upt_rec numeral_3_eq_3)
  have m: "merge_concepts_per_tumor_type [0, 1, 1] ?input = Inr ?out"
    by (simp add: merge_concepts_per_tumor_type_def n w upt_rec numeral_2_eq_2 width_def)
  have g: "gather ?input (where_label [0, 1, 1] 1) [] = Inr [Vec [3, 4], Vec [5, 6], Vec [7, 8]]"
    by (simp add: w)
  note t = merge_concepts_one_entry_per_class [OF m, of cityblock]
  have len: "length ?out = n_tumors [0, 1, 1]"
    using t by blast
  have "(1::nat) < n_tumors [0, 1, 1]"
    by (simp add: n)
  with t g have st: "stack [Vec [3, 4 :: real], Vec [5, 6], Vec [7, 8]] 0 None = Inr (Some (?out ! 1))"
    by blast
  have "\<exists>M. get_distance cityblock (n_tumors [0, 1, 1]) ?out = Inr M
          \<and> square (n_tumors [0, 1, 1]) M"
    using t by blast
  with m len g st show ?thesis by blast
qed

text \<open>
  A class without a node is not dropped: with two classes, the second one having a graph
  without nodes, the output still has two entries, where one class survives.
\<close>

theorem merge_concepts_empty_class_kept:
  "merge_concepts_per_tumor_type [0, 1] [[Vec [1 :: real]], []] = Inr [Vec [1], Vec [1]]
   \<and> surviving_classes [0, 1] [[Vec [1 :: real]], []] = [0]"
proof -
  have n: "n_tumors [0, 1] = 2"
    by (simp add: n_tumors_def)
  have w: "where_label [0, 1] 0 = [0]" "where_label [0, 1] (Suc 0) = [1]"
    by (simp_all add: where_label_def upt_rec numeral_2_eq_2)
  show ?thesis
    by (simp add: merge_concepts_per_tumor_type_def surviving_classes_def n w upt_rec
          numeral_2_eq_2)
qed

section \<open>The bin edges: helper facts\<close>

lemma bin_edges_upto:
  "bin_edges ops m step ctr j bins_1
     = bins_1 @ map (\<lambda>k. f_add ops m (f_mul ops (f_float ops (of_int k)) step)) [j..ctr]"
proof (induction ops m step ctr j bins_1 rule: bin_edges.induct)
  case (1 ops m step ctr j bins_1)
  show ?case
  proof (cases "j \<le> ctr")
    case True
    then have u: "[j..ctr] = j # [j + 1..ctr]"
      by (rule upto_rec1)
    have "bin_edges ops m step ctr j bins_1
            = bin_edges ops m step ctr (j + 1)
                (bins_1 @ [f_add ops m (f_mul ops (f_float ops (of_int j)) step)])"
      using True by (subst bin_edges.simps) simp
    also have "\<dots> = (bins_1 @ [f_add ops m (f_mul ops (f_float ops (of_int j)) step)])
                       @ map (\<lambda>k. f_add ops m (f_mul ops (f_float ops (of_int k)) step))
                           [j + 1..ctr]"
      using True by (rule "1.IH")
    finally show ?thesis
      unfolding u by simp
  next
    case False
    then have "[j..ctr] = []" by simp
    moreover have "bin_edges ops m step ctr j bins_1 = bins_1"
      using False by (subst bin_edges.simps) simp
    ultimately show ?thesis by simp
  qed
qed

lemma all_bins_map:
  "all_bins ops minm maxm step is bins = Inr res \<Longrightarrow>
   length res = length bins + length is
   \<and> (\<forall>k<length bins. res ! k = bins ! k)
   \<and> (\<forall>k<length is. \<exists>ctr.
         f_ceil ops (f_div ops (f_sub ops (maxm ! (is ! k)) (minm ! (is ! k))) step) = Inr ctr
         \<and> res ! (length bins + k)
             = map (\<lambda>j. f_add ops (minm ! (is ! k)) (f_mul ops (f_float ops (of_int j)) step))
                 [0..ctr])"
proof (induction "is" arbitrary: bins)
  case Nil
  then show ?case by simp
next
  case (Cons i "is")
  from Cons.prems obtain ctr where
    c: "f_ceil ops (f_div ops (f_sub ops (maxm ! i) (minm ! i)) step) = Inr ctr"
    and rest: "all_bins ops minm maxm step is
                 (bins @ [bin_edges ops (minm ! i) step ctr 0 []]) = Inr res"
    by (auto split: sum.splits)
  from Cons.IH [OF rest] have
    len: "length res = length bins + 1 + length is"
    and keep: "\<And>k. k < length bins + 1 \<Longrightarrow>
                 res ! k = (bins @ [bin_edges ops (minm ! i) step ctr 0 []]) ! k"
    and ent: "\<And>k. k < length is \<Longrightarrow> \<exists>ctr.
         f_ceil ops (f_div ops (f_sub ops (maxm ! (is ! k)) (minm ! (is ! k))) step) = Inr ctr
         \<and> res ! (length bins + 1 + k)
             = map (\<lambda>j. f_add ops (minm ! (is ! k)) (f_mul ops (f_float ops (of_int j)) step))
                 [0..ctr]"
    by simp_all
  have here: "res ! length bins
        = map (\<lambda>j. f_add ops (minm ! i) (f_mul ops (f_float ops (of_int j)) step)) [0..ctr]"
    using keep [of "length bins"] by (simp add: bin_edges_upto)
  have "\<exists>ctr.
         f_ceil ops (f_div ops (f_sub ops (maxm ! ((i # is) ! k)) (minm ! ((i # is) ! k))) step)
           = Inr ctr
         \<and> res ! (length bins + k)
             = map (\<lambda>j. f_add ops (minm ! ((i # is) ! k))
                          (f_mul ops (f_float ops (of_int j)) step)) [0..ctr]"
    if "k < length (i # is)" for k
  proof (cases k)
    case 0
    with c here show ?thesis by simp
  next
    case (Suc k')
    with that ent [of k'] show ?thesis by simp
  qed
  moreover have "res ! k = bins ! k" if "k < length bins" for k
    using keep [of k] that by (simp add: nth_append)
  ultimately show ?case using len by simp
qed

lemma vstack_Nd: "vstack (Nd s d) a = Inr y \<Longrightarrow> \<exists>s' d'. y = Nd s' d'"
  by (cases a) (simp_all split: if_splits, blast)

lemma vstack_all_Nd:
  "vstack_all as (Suc i) (Nd s d) = Inr y \<Longrightarrow> \<exists>s' d'. y = Nd s' d'"
proof (induction as arbitrary: i s d)
  case Nil
  then show ?case by auto
next
  case (Cons a as)
  from Cons.prems obtain x' where v: "vstack (Nd s d) a = Inr x'"
    and rest: "vstack_all as (Suc (Suc i)) x' = Inr y"
    by (auto split: sum.splits)
  from vstack_Nd [OF v] obtain s' d' where "x' = Nd s' d'" by blast
  with rest Cons.IH show ?case by blast
qed

lemma vstack_Mat:
  "vstack x a = Inr y \<Longrightarrow>
   (\<exists>s d. y = Nd s d) \<or> y = Mat (atleast_2d x @ atleast_2d a)"
  by (cases x; cases a) (simp_all split: if_splits, blast+)

lemma vstack_all_rows:
  "vstack_all as (Suc i) x = Inr (Mat rows) \<Longrightarrow>
   rows = atleast_2d x @ concat (map atleast_2d as)"
proof (induction as arbitrary: i x)
  case Nil
  then show ?case by simp
next
  case (Cons a as)
  from Cons.prems obtain x' where v: "vstack x a = Inr x'"
    and rest: "vstack_all as (Suc (Suc i)) x' = Inr (Mat rows)"
    by (auto split: sum.splits)
  from vstack_Mat [OF v] show ?case
  proof
    assume "\<exists>s d. x' = Nd s d"
    then obtain s d where "x' = Nd s d" by blast
    with rest vstack_all_Nd [of as "Suc i" s d "Mat rows"] show ?thesis by simp
  next
    assume "x' = Mat (atleast_2d x @ atleast_2d a)"
    with Cons.IH [OF rest] show ?thesis by simp
  qed
qed

lemma vstack_all_pooled:
  "vstack_all input 0 (Vec []) = Inr (Mat rows) \<Longrightarrow> rows = pooled_rows input"
proof (cases input)
  case Nil
  assume "vstack_all input 0 (Vec []) = Inr (Mat rows)"
  with Nil show ?thesis by simp
next
  case (Cons a as)
  assume "vstack_all input 0 (Vec []) = Inr (Mat rows)"
  with Cons have "vstack_all as (Suc 0) a = Inr (Mat rows)" by simp
  from vstack_all_rows [OF this] Cons show ?thesis
    by (simp add: pooled_rows_def)
qed

lemma column_bounds_Inr:
  "column_bounds bound x = Inr b \<Longrightarrow>
   \<exists>rows. x = Mat rows \<and> rows \<noteq> []
     \<and> b = map (\<lambda>d. bound (map (\<lambda>r. r ! d) rows)) [0..<width rows]"
  by (cases x) (simp_all add: column_bounds_def split: if_splits)

lemma histogram_bins_edges:
  assumes "histogram_bins ops input step = Inr bins"
  shows "pooled_rows input \<noteq> []"
    and "length bins = width (pooled_rows input)"
    and "d < width (pooled_rows input) \<Longrightarrow>
         \<exists>ctr. f_ceil ops
                 (f_div ops
                    (f_sub ops (f_max ops (map (\<lambda>r. r ! d) (pooled_rows input)))
                       (f_min ops (map (\<lambda>r. r ! d) (pooled_rows input))))
                    step) = Inr ctr
           \<and> bins ! d
               = map (\<lambda>j. f_add ops (f_min ops (map (\<lambda>r. r ! d) (pooled_rows input)))
                            (f_mul ops (f_float ops (of_int j)) step))
                   [0..ctr]"
proof -
  from assms obtain x minm maxm where
    x: "vstack_all input 0 (Vec []) = Inr x"
    and lo: "column_bounds (f_min ops) x = Inr minm"
    and hi: "column_bounds (f_max ops) x = Inr maxm"
    and b: "all_bins ops minm maxm step [0..<length minm] [] = Inr bins"
    by (auto simp: histogram_bins_def split: sum.splits)
  from column_bounds_Inr [OF lo] obtain rows where
    rows: "x = Mat rows" "rows \<noteq> []"
    and minm: "minm = map (\<lambda>d. f_min ops (map (\<lambda>r. r ! d) rows)) [0..<width rows]"
    by blast
  from column_bounds_Inr [OF hi] rows have
    maxm: "maxm = map (\<lambda>d. f_max ops (map (\<lambda>r. r ! d) rows)) [0..<width rows]"
    by auto
  have p: "rows = pooled_rows input"
    using vstack_all_pooled x rows by simp
  show "pooled_rows input \<noteq> []" using rows p by simp
  note m = all_bins_map [OF b]
  show "length bins = width (pooled_rows input)"
    using m minm p by simp
  show "\<exists>ctr. f_ceil ops
                 (f_div ops
                    (f_sub ops (f_max ops (map (\<lambda>r. r ! d) (pooled_rows input)))
                       (f_min ops (map (\<lambda>r. r ! d) (pooled_rows input))))
                    step) = Inr ctr
           \<and> bins ! d
               = map (\<lambda>j. f_add ops (f_min ops (map (\<lambda>r. r ! d) (pooled_rows input)))
                            (f_mul ops (f_float ops (of_int j)) step))
                   [0..ctr]"
    if "d < width (pooled_rows input)"
  proof -
    have d: "d < length [0..<length minm]" using that minm p by simp
    from m d obtain ctr where
      "f_ceil ops (f_div ops (f_sub ops (maxm ! ([0..<length minm] ! d))
                                (minm ! ([0..<length minm] ! d))) step) = Inr ctr"
      and "bins ! (length ([] :: 'a list list) + d)
             = map (\<lambda>j. f_add ops (minm ! ([0..<length minm] ! d))
                          (f_mul ops (f_float ops (of_int j)) step)) [0..ctr]"
      by blast
    then show ?thesis
      using that minm maxm p by simp
  qed
qed

section \<open>Double precision: evaluation\<close>

lemma exponent_from_numeral:
  "exponent_from (numeral k) e y =
     (if y < 2 powi e then exponent_from (pred_numeral k) (e - 1) y
      else if 2 powi (e + 1) \<le> y then exponent_from (pred_numeral k) (e + 1) y
      else e)"
  by (simp add: numeral_eq_Suc)

lemmas fl_eval = fl_def Let_def rint_def power_int_minus exponent_from_numeral

lemma fl_001: "fl (1 / 100) = Finite (5764607523034235 / 2 ^ 59)"
  by (simp add: fl_eval)

lemma fl_007: "fl (7 / 100) = Finite (1261007895663739 / 2 ^ 54)"
  by (simp add: fl_eval)


lemma edges_eval:
  "map (\<lambda>k. float_add (Finite (5764607523034235 / 2 ^ 59))
              (float_mul (fl (of_int k)) (Finite (5764607523034235 / 2 ^ 59)))) [0..6]
   = [Finite (5764607523034235 / 2 ^ 59), Finite (5764607523034235 / 2 ^ 58),
      Finite (1080863910568919 / 2 ^ 55), Finite (5764607523034235 / 2 ^ 57),
      Finite (3602879701896397 / 2 ^ 56), Finite (8646911284551353 / 2 ^ 57),
      Finite (5044031582654955 / 2 ^ 56)]"
  by (simp add: upto_rec1 fl_eval)

lemma ctr_eval:
  "float_ceil (float_div (float_sub (Finite (1261007895663739 / 2 ^ 54))
                            (Finite (5764607523034235 / 2 ^ 59)))
                 (Finite (5764607523034235 / 2 ^ 59))) = Inr 6"
  by (simp add: float_sub_def fl_eval)

lemma bins_eval:
  "histogram_bins binary64 [Mat [[fl (1 / 100)]], Mat [[fl (7 / 100)]]] (fl (1 / 100))
   = Inr [[Finite (5764607523034235 / 2 ^ 59), Finite (5764607523034235 / 2 ^ 58),
           Finite (1080863910568919 / 2 ^ 55), Finite (5764607523034235 / 2 ^ 57),
           Finite (3602879701896397 / 2 ^ 56), Finite (8646911284551353 / 2 ^ 57),
           Finite (5044031582654955 / 2 ^ 56)]]"
proof -
  have m: "float_min [Finite (5764607523034235 / 2 ^ 59), Finite (1261007895663739 / 2 ^ 54)]
             = Finite (5764607523034235 / 2 ^ 59)"
    "float_max [Finite (5764607523034235 / 2 ^ 59), Finite (1261007895663739 / 2 ^ 54)]
             = Finite (1261007895663739 / 2 ^ 54)"
    by (simp_all add: float_min_def float_max_def)
  show ?thesis
    unfolding fl_001 fl_007 histogram_bins_def
    using m ctr_eval edges_eval
    by (simp add: column_bounds_def width_def binary64_def bin_edges_upto)
qed


lemma hist_eval_1:
  "histogram1 (Mat [[Finite (5764607523034235 / 2 ^ 59)]])
     [[Finite (5764607523034235 / 2 ^ 59), Finite (5764607523034235 / 2 ^ 58),
       Finite (1080863910568919 / 2 ^ 55), Finite (5764607523034235 / 2 ^ 57),
       Finite (3602879701896397 / 2 ^ 56), Finite (8646911284551353 / 2 ^ 57),
       Finite (5044031582654955 / 2 ^ 56)]]
   = Inr (Vec [Finite 100, Finite 0, Finite 0, Finite 0, Finite 0, Finite 0])"
  by (simp add: histogram1_def in_bin_def float_sub_def Let_def upt_rec fl_eval)

lemma hist_eval_2:
  "histogram1 (Mat [[Finite (1261007895663739 / 2 ^ 54)]])
     [[Finite (5764607523034235 / 2 ^ 59), Finite (5764607523034235 / 2 ^ 58),
       Finite (1080863910568919 / 2 ^ 55), Finite (5764607523034235 / 2 ^ 57),
       Finite (3602879701896397 / 2 ^ 56), Finite (8646911284551353 / 2 ^ 57),
       Finite (5044031582654955 / 2 ^ 56)]]
   = Inr (Vec [NaN, NaN, NaN, NaN, NaN, NaN])"
  by (simp add: histogram1_def in_bin_def float_sub_def Let_def upt_rec fl_eval)

lemma normalize_eval:
  "normalize_count binary64
     [Vec [Finite 100, Finite 0, Finite 0, Finite 0, Finite 0, Finite 0],
      Vec [NaN, NaN, NaN, NaN, NaN, NaN]]
   = Inr [Vec [Finite 1, Finite 0, Finite 0, Finite 0, Finite 0, Finite 0],
          Vec [NaN, NaN, NaN, NaN, NaN, NaN]]"
  by (simp add: normalize_count_def binary64_def float_min_def float_max_def float_sub_def
        float_ne_def fl_eval)

lemma analysis_eval:
  "histogram_analysis binary64 histogram1 [Mat [[fl (1 / 100)]], Mat [[fl (7 / 100)]]]
     (fl (1 / 100))
   = Inr [Vec [Finite 1, Finite 0, Finite 0, Finite 0, Finite 0, Finite 0],
          Vec [NaN, NaN, NaN, NaN, NaN, NaN]]"
  unfolding histogram_analysis_def bins_eval
  using hist_eval_1 hist_eval_2 normalize_eval
  by (simp add: fl_001 fl_007)


section \<open>The bin edges and the normalization in double precision: results\<close>

text \<open>
  The bin edges over any floating point arithmetic. When \<open>histogram_analysis\<close> has
  computed its bin edges, the stacked rows of all the classes are not empty, there is
  one list of edges for every column, and the edges of a column are the floating point
  sums \<open>min + j * step\<close> for \<open>j\<close> from \<open>0\<close> to \<open>ctr\<close>, where \<open>min\<close> and \<open>max\<close> are
  \<open>np.min\<close> and \<open>np.max\<close> of that column over the rows of all the classes together and
  \<open>ctr\<close> is \<open>math.ceil\<close> of the floating point quotient of \<open>max - min\<close> and the step.
\<close>

theorem histogram_bins_pooled_edges:
  assumes "histogram_bins ops input step = Inr bins"
  shows "pooled_rows input \<noteq> [] \<and> length bins = width (pooled_rows input)
         \<and> (\<forall>d<width (pooled_rows input).
               \<exists>ctr. f_ceil ops
                       (f_div ops
                          (f_sub ops (f_max ops (map (\<lambda>r. r ! d) (pooled_rows input)))
                             (f_min ops (map (\<lambda>r. r ! d) (pooled_rows input))))
                          step) = Inr ctr
                 \<and> bins ! d
                     = map (\<lambda>j. f_add ops (f_min ops (map (\<lambda>r. r ! d) (pooled_rows input)))
                                  (f_mul ops (f_float ops (of_int j)) step))
                         [0..ctr])"
  using histogram_bins_edges [OF assms] by blast

theorem histogram_bins_pooled_edges_witness:
  "histogram_bins binary64 [Mat [[fl (1 / 100)]], Mat [[fl (7 / 100)]]] (fl (1 / 100))
     = Inr [[Finite (5764607523034235 / 2 ^ 59), Finite (5764607523034235 / 2 ^ 58),
             Finite (1080863910568919 / 2 ^ 55), Finite (5764607523034235 / 2 ^ 57),
             Finite (3602879701896397 / 2 ^ 56), Finite (8646911284551353 / 2 ^ 57),
             Finite (5044031582654955 / 2 ^ 56)]]
   \<and> pooled_rows [Mat [[fl (1 / 100)]], Mat [[fl (7 / 100)]]] \<noteq> []
   \<and> length [[Finite (5764607523034235 / 2 ^ 59), Finite (5764607523034235 / 2 ^ 58),
               Finite (1080863910568919 / 2 ^ 55), Finite (5764607523034235 / 2 ^ 57),
               Finite (3602879701896397 / 2 ^ 56), Finite (8646911284551353 / 2 ^ 57),
               Finite (5044031582654955 / 2 ^ 56)]]
       = width (pooled_rows [Mat [[fl (1 / 100)]], Mat [[fl (7 / 100)]]])"
  using histogram_bins_pooled_edges [OF bins_eval] bins_eval by blast

text \<open>
  Claim C3, evaluated in double precision. Two classes with one row each, \<open>0.01\<close> and
  \<open>0.07\<close>, and the step \<open>0.01\<close> of \<open>compute_concept_score\<close>: the floating point
  quotient of \<open>max - min\<close> and the step is \<open>6\<close>, so there are seven edges, and the last
  one, \<open>0.06999999999999999\<close>, is below the maximum; the quotient of the same three
  numbers without rounding is above \<open>6\<close> and has the ceiling \<open>7\<close>.
\<close>

theorem histogram_bins_last_edge_below_maximum:
  "histogram_bins binary64 [Mat [[fl (1 / 100)]], Mat [[fl (7 / 100)]]] (fl (1 / 100))
     = Inr [[Finite (5764607523034235 / 2 ^ 59), Finite (5764607523034235 / 2 ^ 58),
             Finite (1080863910568919 / 2 ^ 55), Finite (5764607523034235 / 2 ^ 57),
             Finite (3602879701896397 / 2 ^ 56), Finite (8646911284551353 / 2 ^ 57),
             Finite (5044031582654955 / 2 ^ 56)]]
   \<and> float_less (Finite (5044031582654955 / 2 ^ 56)) (fl (7 / 100))
   \<and> \<lceil>(finite_value (fl (7 / 100)) - finite_value (fl (1 / 100)))
        / finite_value (fl (1 / 100))\<rceil> = 7"
proof -
  have "float_less (Finite (5044031582654955 / 2 ^ 56)) (fl (7 / 100))"
    by (simp add: fl_007)
  moreover have "\<lceil>(finite_value (fl (7 / 100)) - finite_value (fl (1 / 100)))
        / finite_value (fl (1 / 100))\<rceil> = 7"
    by (simp add: fl_001 fl_007)
  ultimately show ?thesis using bins_eval by blast
qed

text \<open>
  Claim C4, evaluated in double precision on the same input. The row \<open>0.07\<close> of the
  second class lies outside the edges, so the density histogram of that class is zero
  divided by zero in every bin; its minimum and maximum are NaN and change neither
  bound, and the normalization returns it as it is: the values that
  \<open>histogram_analysis\<close> returns for that class are NaN, not numbers between \<open>0\<close> and \<open>1\<close>.
\<close>

theorem histogram_analysis_returns_nan:
  "histogram_analysis binary64 histogram1 [Mat [[fl (1 / 100)]], Mat [[fl (7 / 100)]]]
     (fl (1 / 100))
     = Inr [Vec [Finite 1, Finite 0, Finite 0, Finite 0, Finite 0, Finite 0],
            Vec [NaN, NaN, NaN, NaN, NaN, NaN]]
   \<and> normalize_count binary64
       [Vec [Finite 100, Finite 0, Finite 0, Finite 0, Finite 0, Finite 0],
        Vec [NaN, NaN, NaN, NaN, NaN, NaN]]
     = Inr [Vec [Finite 1, Finite 0, Finite 0, Finite 0, Finite 0, Finite 0],
            Vec [NaN, NaN, NaN, NaN, NaN, NaN]]"
  using analysis_eval normalize_eval by blast

end
